theory Spec2Isabelle
  imports Main
begin

section \<open>Python strings\<close>

text \<open>
  A Python \<open>str\<close> is modelled as a \<open>string\<close>: a list of characters with code points
  below 256 (Latin-1). A \<open>bytes\<close> value is a list of the same 8-bit characters.
  The string methods the proxy service calls are written out below for this range.
\<close>

type_synonym bytes = "char list"

definition code :: "char \<Rightarrow> int" where
  "code c = of_char c"

text \<open>\<open>str.lower()\<close>, per character: A-Z and the Latin-1 capitals (all of
  0xC0-0xDE but the multiplication sign 0xD7) move up by 32.\<close>

definition lower_char :: "char \<Rightarrow> char" where
  "lower_char c =
     (let n = code c
      in if (65 \<le> n \<and> n \<le> 90) \<or> (192 \<le> n \<and> n \<le> 222 \<and> n \<noteq> 215)
         then char_of (n + 32) else c)"

definition lower :: "string \<Rightarrow> string" where
  "lower s = map lower_char s"

text \<open>\<open>str.isspace()\<close> on one character; \<open>str.strip()\<close> and the regular
  expression class \<open>\s\<close> use the same set.\<close>

definition isspace :: "char \<Rightarrow> bool" where
  "isspace c =
     (let n = code c
      in (9 \<le> n \<and> n \<le> 13) \<or> (28 \<le> n \<and> n \<le> 32) \<or> n = 133 \<or> n = 160)"

definition strip :: "string \<Rightarrow> string" where
  "strip s = rev (dropWhile isspace (rev (dropWhile isspace s)))"

text \<open>\<open>s.strip(chars)\<close> and \<open>s.lstrip(chars)\<close> with an explicit character set.\<close>

definition lstrip_chars :: "(char \<Rightarrow> bool) \<Rightarrow> string \<Rightarrow> string" where
  "lstrip_chars P s = dropWhile P s"

definition strip_chars :: "(char \<Rightarrow> bool) \<Rightarrow> string \<Rightarrow> string" where
  "strip_chars P s = rev (dropWhile P (rev (dropWhile P s)))"

definition startswith :: "string \<Rightarrow> string \<Rightarrow> bool" where
  "startswith s p = (take (length p) s = p)"

definition endswith :: "string \<Rightarrow> string \<Rightarrow> bool" where
  "endswith s p = (length p \<le> length s \<and> drop (length s - length p) s = p)"

text \<open>\<open>p in s\<close> for strings: \<open>p\<close> occurs in \<open>s\<close> as a contiguous run.\<close>

fun contains :: "string \<Rightarrow> string \<Rightarrow> bool" where
  "contains p [] = (p = [])"
| "contains p (c # s) = (startswith (c # s) p \<or> contains p s)"

text \<open>\<open>s.partition(c)\<close> and \<open>s.rpartition(c)\<close> for a one-character separator:
  the text before, whether the separator was found, the text after.\<close>

definition str_partition :: "char \<Rightarrow> string \<Rightarrow> string \<times> bool \<times> string" where
  "str_partition c s =
     (takeWhile (\<lambda>x. x \<noteq> c) s, c \<in> set s, drop 1 (dropWhile (\<lambda>x. x \<noteq> c) s))"

definition str_rpartition :: "char \<Rightarrow> string \<Rightarrow> string \<times> bool \<times> string" where
  "str_rpartition c s =
     (if c \<in> set s
      then (rev (drop 1 (dropWhile (\<lambda>x. x \<noteq> c) (rev s))), True,
            rev (takeWhile (\<lambda>x. x \<noteq> c) (rev s)))
      else ([], False, s))"

text \<open>\<open>s.split(c)\<close>: never empty; \<open>sep.join(parts)\<close>.\<close>

fun str_split :: "char \<Rightarrow> string \<Rightarrow> string list" where
  "str_split c [] = [[]]"
| "str_split c (x # xs) =
     (if x = c then [] # str_split c xs
      else (case str_split c xs of
              [] \<Rightarrow> [[x]]
            | p # ps \<Rightarrow> (x # p) # ps))"

fun str_join :: "string \<Rightarrow> string list \<Rightarrow> string" where
  "str_join sep [] = []"
| "str_join sep [p] = p"
| "str_join sep (p # q # ps) = p @ sep @ str_join sep (q # ps)"

definition is_ascii_digit :: "char \<Rightarrow> bool" where
  "is_ascii_digit c = (48 \<le> code c \<and> code c \<le> 57)"

definition is_ascii_alpha :: "char \<Rightarrow> bool" where
  "is_ascii_alpha c = ((65 \<le> code c \<and> code c \<le> 90) \<or> (97 \<le> code c \<and> code c \<le> 122))"

definition is_hex_digit :: "char \<Rightarrow> bool" where
  "is_hex_digit c =
     (is_ascii_digit c \<or> (65 \<le> code c \<and> code c \<le> 70) \<or> (97 \<le> code c \<and> code c \<le> 102))"

definition is_oct_digit :: "char \<Rightarrow> bool" where
  "is_oct_digit c = (48 \<le> code c \<and> code c \<le> 55)"

text \<open>\<open>int(s, 10)\<close>, \<open>int(s, 16)\<close> and \<open>int(s, 8)\<close> on a non-empty string of
  digits of the base, and \<open>str(n)\<close>, \<open>'%x' % n\<close> for an integer that is not negative.\<close>

definition digit_value :: "char \<Rightarrow> int" where
  "digit_value c =
     (if is_ascii_digit c then code c - 48
      else if 97 \<le> code c then code c - 87 else code c - 55)"

definition int_of_digits :: "int \<Rightarrow> string \<Rightarrow> int" where
  "int_of_digits base s = foldl (\<lambda>n c. base * n + digit_value c) 0 s"

definition digit_char :: "int \<Rightarrow> char" where
  "digit_char d = (if d < 10 then char_of (48 + d) else char_of (87 + d))"

function digits_of :: "int \<Rightarrow> int \<Rightarrow> string" where
  "digits_of base n =
     (if base < 2 \<or> n < base then [digit_char n]
      else digits_of base (n div base) @ [digit_char (n mod base)])"
  by pat_completeness auto
termination
  by (relation "measure (\<lambda>(base, n). nat n)") (auto simp: int_div_less_self)

definition str_of_int :: "int \<Rightarrow> string" where
  "str_of_int n = digits_of 10 n"

definition hex_of_int :: "int \<Rightarrow> string" where
  "hex_of_int n = digits_of 16 n"

section \<open>Exceptions\<close>

text \<open>
  Every exception the modelled code can meet is a subclass of \<open>Exception\<close>, so that a
  handler \<open>except Exception\<close> catches each of them. \<open>ValueError\<close>, \<open>re.error\<close>
  and \<open>IndexError\<close> carry their message; \<open>Zlib_error\<close> is \<open>zlib.error\<close>,
  \<open>Codec_error\<close> any other exception of a decompression library (\<open>BadGzipFile\<close>,
  \<open>EOFError\<close>, \<open>brotli.error\<close>, \<open>ImportError\<close>), and the last three are those of
  \<open>requests\<close>.
\<close>

datatype py_exception =
    ValueError string
  | Re_error string
  | IndexError string
  | Zlib_error
  | Codec_error
  | Timeout
  | SSLError
  | ConnectionError
  | RequestException

fun message :: "py_exception \<Rightarrow> string" where
  "message (ValueError m) = m"
| "message (Re_error m) = m"
| "message (IndexError m) = m"
| "message e = []"

section \<open>The standard library: \<open>ipaddress\<close>\<close>

text \<open>
  \<open>repr(s)\<close> of a string, as the messages of \<open>ipaddress\<close> print it: single quotes
  unless the string has a single quote and no double quote; the quote and the backslash
  escaped; tab, newline and carriage return as \<open>\t \n \r\<close>; every other character
  that is not printable (below 0x20, 0x7F to 0xA0, 0xAD) as \<open>\xNN\<close>.
\<close>

definition repr_char :: "char \<Rightarrow> char \<Rightarrow> string" where
  "repr_char q c =
     (let n = code c
      in if c = q \<or> n = 92 then [CHR 0x5C, c]
         else if n = 9 then [CHR 0x5C, CHR ''t'']
         else if n = 10 then [CHR 0x5C, CHR ''n'']
         else if n = 13 then [CHR 0x5C, CHR ''r'']
         else if n < 32 \<or> (127 \<le> n \<and> n \<le> 160) \<or> n = 173
              then [CHR 0x5C, CHR ''x'', digit_char (n div 16), digit_char (n mod 16)]
         else [c])"

definition repr :: "string \<Rightarrow> string" where
  "repr s =
     (let q = (if CHR 0x27 \<in> set s \<and> CHR 0x22 \<notin> set s then CHR 0x22 else CHR 0x27)
      in [q] @ concat (map (repr_char q) s) @ [q])"

text \<open>\<open>IPv4Address._parse_octet\<close>: \<open>None\<close> where it raises \<open>ValueError\<close>.\<close>

definition parse_octet :: "string \<Rightarrow> int option" where
  "parse_octet octet_str =
     (if octet_str = [] then None
      else if \<not> list_all is_ascii_digit octet_str then None
      else if length octet_str > 3 then None
      else if octet_str \<noteq> ''0'' \<and> hd octet_str = CHR ''0'' then None
      else (let octet_int = int_of_digits 10 octet_str
            in if octet_int > 255 then None else Some octet_int))"

text \<open>\<open>IPv4Address(address)\<close> on a string: the address as an integer, \<open>None\<close> where
  it raises \<open>AddressValueError\<close>.\<close>

definition IPv4Address :: "string \<Rightarrow> int option" where
  "IPv4Address addr_str =
     (if CHR ''/'' \<in> set addr_str then None
      else if addr_str = [] then None
      else (case map parse_octet (str_split CHR ''.'' addr_str) of
              [Some a, Some b, Some c, Some d] \<Rightarrow> Some (((a * 256 + b) * 256 + c) * 256 + d)
            | _ \<Rightarrow> None))"

definition parse_hextet :: "string \<Rightarrow> int option" where
  "parse_hextet hextet_str =
     (if \<not> list_all is_hex_digit hextet_str then None
      else if length hextet_str > 4 then None
      else if hextet_str = [] then None
      else Some (int_of_digits 16 hextet_str))"

text \<open>The two loops of \<open>_ip_int_from_string\<close> that shift hextets into the integer.\<close>

fun shift_hextets :: "int \<Rightarrow> string list \<Rightarrow> int option" where
  "shift_hextets ip_int [] = Some ip_int"
| "shift_hextets ip_int (p # ps) =
     (case parse_hextet p of
        None \<Rightarrow> None
      | Some h \<Rightarrow> shift_hextets (ip_int * 65536 + h) ps)"

text \<open>\<open>_BaseV6._ip_int_from_string\<close>.\<close>

definition ipv6_int_from_string :: "string \<Rightarrow> int option" where
  "ipv6_int_from_string ip_str =
     (if ip_str = [] then None
      else
        let parts0 = str_split CHR '':'' ip_str in
        if length parts0 < 3 then None
        else
          (case (if CHR ''.'' \<in> set (last parts0)
                 then (case IPv4Address (last parts0) of
                         None \<Rightarrow> None
                       | Some ipv4_int \<Rightarrow>
                           Some (butlast parts0 @
                                 [hex_of_int ((ipv4_int div 65536) mod 65536),
                                  hex_of_int (ipv4_int mod 65536)]))
                 else Some parts0) of
             None \<Rightarrow> None
           | Some parts \<Rightarrow>
               if length parts > 9 then None
               else
                 (case filter (\<lambda>i. parts ! i = []) [1 ..< length parts - 1] of
                    [] \<Rightarrow>
                      if length parts \<noteq> 8 then None
                      else if hd parts = [] then None
                      else if last parts = [] then None
                      else shift_hextets 0 parts
                  | [skip_index] \<Rightarrow>
                      let hi0 = skip_index;
                          lo0 = length parts - skip_index - 1
                      in if hd parts = [] \<and> hi0 - 1 \<noteq> 0 then None
                         else
                           let parts_hi = (if hd parts = [] then hi0 - 1 else hi0)
                           in if last parts = [] \<and> lo0 - 1 \<noteq> 0 then None
                              else
                                let parts_lo = (if last parts = [] then lo0 - 1 else lo0)
                                in if parts_hi + parts_lo > 7 then None
                                   else
                                     (case shift_hextets 0 (take parts_hi parts) of
                                        None \<Rightarrow> None
                                      | Some hi \<Rightarrow>
                                          shift_hextets
                                            (hi * 65536 ^ (8 - (parts_hi + parts_lo)))
                                            (drop (length parts - parts_lo) parts))
                  | _ \<Rightarrow> None)))"

text \<open>\<open>IPv6Address(address)\<close> on a string: the scope id after \<open>%\<close> is split off
  first.\<close>

definition IPv6Address :: "string \<Rightarrow> int option" where
  "IPv6Address addr_str =
     (if CHR ''/'' \<in> set addr_str then None
      else
        (case str_partition CHR ''%'' addr_str of
           (addr, sep, scope_id) \<Rightarrow>
             if sep \<and> (scope_id = [] \<or> CHR ''%'' \<in> set scope_id) then None
             else ipv6_int_from_string addr))"

datatype ip_address = IPv4 int | IPv6 int

text \<open>\<open>ipaddress.ip_address\<close>: version 4 is tried first.\<close>

definition ip_address :: "string \<Rightarrow> py_exception + ip_address" where
  "ip_address address =
     (case IPv4Address address of
        Some ip \<Rightarrow> Inr (IPv4 ip)
      | None \<Rightarrow>
          (case IPv6Address address of
             Some ip \<Rightarrow> Inr (IPv6 ip)
           | None \<Rightarrow>
               Inl (ValueError
                      (repr address @ '' does not appear to be an IPv4 or IPv6 address''))))"

text \<open>An \<open>IPv4Network\<close> is its network address and prefix length; \<open>ip in network\<close>
  compares the address under the netmask, and is false for an address of the other
  version.\<close>

type_synonym ip_network = "int \<times> nat"

fun in_network :: "ip_address \<Rightarrow> ip_network \<Rightarrow> bool" where
  "in_network (IPv4 ip) (network_address, prefixlen) =
     ((ip div 2 ^ (32 - prefixlen)) * 2 ^ (32 - prefixlen) = network_address)"
| "in_network (IPv6 ip) (network_address, prefixlen) = False"

section \<open>The standard library: \<open>urllib.parse\<close>\<close>

text \<open>
  The functions below follow \<open>urllib/parse.py\<close> of CPython 3.12 line by line, on
  strings of code points below 256. \<open>_checknetloc\<close> is left out: it raises only when
  the NFKC form of a non-ASCII host contains one of \<open>/?#@:\<close>, which no character
  below 256 produces.
\<close>

definition uses_relative :: "string list" where
  "uses_relative = ['''', ''ftp'', ''http'', ''gopher'', ''nntp'', ''imap'',
                    ''wais'', ''file'', ''https'', ''shttp'', ''mms'',
                    ''prospero'', ''rtsp'', ''rtsps'', ''rtspu'', ''sftp'',
                    ''svn'', ''svn+ssh'', ''ws'', ''wss'']"

definition uses_netloc :: "string list" where
  "uses_netloc = ['''', ''ftp'', ''http'', ''gopher'', ''nntp'', ''telnet'',
                  ''imap'', ''wais'', ''file'', ''mms'', ''https'', ''shttp'',
                  ''snews'', ''prospero'', ''rtsp'', ''rtsps'', ''rtspu'', ''rsync'',
                  ''svn'', ''svn+ssh'', ''sftp'', ''nfs'', ''git'', ''git+ssh'',
                  ''ws'', ''wss'', ''itms-services'']"

definition uses_params :: "string list" where
  "uses_params = ['''', ''ftp'', ''hdl'', ''prospero'', ''http'', ''imap'',
                  ''https'', ''shttp'', ''rtsp'', ''rtsps'', ''rtspu'', ''sip'',
                  ''sips'', ''mms'', ''sftp'', ''tel'']"

definition scheme_char :: "char \<Rightarrow> bool" where
  "scheme_char c = (is_ascii_alpha c \<or> is_ascii_digit c \<or> c \<in> set ''+-.'')"

text \<open>\<open>_WHATWG_C0_CONTROL_OR_SPACE\<close> and \<open>_UNSAFE_URL_BYTES_TO_REMOVE\<close>.\<close>

definition c0_control_or_space :: "char \<Rightarrow> bool" where
  "c0_control_or_space c = (code c \<le> 32)"

definition unsafe_url_byte :: "char \<Rightarrow> bool" where
  "unsafe_url_byte c = (code c = 9 \<or> code c = 13 \<or> code c = 10)"

record parse_result =
  scheme :: string
  netloc :: string
  path :: string
  params :: string
  query :: string
  fragment :: string

text \<open>\<open>_splitnetloc(url, 2)\<close> on a string that begins with \<open>//\<close>: the authority
  runs to the first of \<open>/ ? #\<close>.\<close>

definition splitnetloc :: "string \<Rightarrow> string \<times> string" where
  "splitnetloc url =
     (let is_delim = (\<lambda>c. c \<in> set ''/?#'')
      in (takeWhile (\<lambda>c. \<not> is_delim c) (drop 2 url),
          dropWhile (\<lambda>c. \<not> is_delim c) (drop 2 url)))"

text \<open>\<open>_check_bracketed_host\<close>: an IPvFuture literal \<open>v<hex>+.<any>+\<close>, or an
  IPv6 address.\<close>

definition check_bracketed_host :: "string \<Rightarrow> py_exception + unit" where
  "check_bracketed_host hostname =
     (if startswith hostname ''v''
      then (let hex = takeWhile is_hex_digit (drop 1 hostname);
                rest = dropWhile is_hex_digit (drop 1 hostname)
            in if hex \<noteq> [] \<and> startswith rest ''.'' \<and> drop 1 rest \<noteq> []
                  \<and> CHR 0x0A \<notin> set (drop 1 rest)
               then Inr ()
               else Inl (ValueError ''IPvFuture address is invalid''))
      else (case ip_address hostname of
              Inl e \<Rightarrow> Inl e
            | Inr (IPv4 ip) \<Rightarrow> Inl (ValueError ''An IPv4 address cannot be in brackets'')
            | Inr (IPv6 ip) \<Rightarrow> Inr ()))"

definition check_bracketed_netloc :: "string \<Rightarrow> py_exception + unit" where
  "check_bracketed_netloc nl =
     (case str_rpartition CHR ''@'' nl of
        (u, at, hostname_and_port) \<Rightarrow>
          (case str_partition CHR ''['' hostname_and_port of
             (before_bracket, have_open_br, bracketed) \<Rightarrow>
               if have_open_br
               then
                 if before_bracket \<noteq> [] then Inl (ValueError ''Invalid IPv6 URL'')
                 else
                   (case str_partition CHR '']'' bracketed of
                      (hostname, cl, port) \<Rightarrow>
                        if port \<noteq> [] \<and> \<not> startswith port '':''
                        then Inl (ValueError ''Invalid IPv6 URL'')
                        else check_bracketed_host hostname)
               else
                 (case str_partition CHR '':'' hostname_and_port of
                    (hostname, co, port) \<Rightarrow> check_bracketed_host hostname)))"

text \<open>\<open>urlsplit(url, scheme)\<close>: the five components, with \<open>params\<close> empty.\<close>

definition urlsplit :: "string \<Rightarrow> string \<Rightarrow> py_exception + parse_result" where
  "urlsplit url0 scheme0 =
     (let url1 = filter (\<lambda>c. \<not> unsafe_url_byte c) (lstrip_chars c0_control_or_space url0);
          scheme1 = filter (\<lambda>c. \<not> unsafe_url_byte c) (strip_chars c0_control_or_space scheme0);
          head = takeWhile (\<lambda>c. c \<noteq> CHR '':'') url1;
          (scheme2, url2) =
            (if CHR '':'' \<in> set url1 \<and> head \<noteq> [] \<and> is_ascii_alpha (hd url1)
                \<and> list_all scheme_char head
             then (lower head, drop (Suc (length head)) url1)
             else (scheme1, url1))
      in
        (case (if take 2 url2 = ''//''
               then (let (nl, rest) = splitnetloc url2
                     in if (CHR ''['' \<in> set nl \<and> CHR '']'' \<notin> set nl)
                           \<or> (CHR '']'' \<in> set nl \<and> CHR ''['' \<notin> set nl)
                        then Inl (ValueError ''Invalid IPv6 URL'')
                        else if CHR ''['' \<in> set nl \<and> CHR '']'' \<in> set nl
                        then (case check_bracketed_netloc nl of
                                Inl e \<Rightarrow> Inl e
                              | Inr u \<Rightarrow> Inr (nl, rest))
                        else Inr (nl, rest))
               else Inr ([], url2)) of
           Inl e \<Rightarrow> Inl e
         | Inr (nl, url3) \<Rightarrow>
             let (url4, frag) =
                   (if CHR ''#'' \<in> set url3
                    then (takeWhile (\<lambda>c. c \<noteq> CHR ''#'') url3,
                          drop 1 (dropWhile (\<lambda>c. c \<noteq> CHR ''#'') url3))
                    else (url3, []));
                 (url5, qry) =
                   (if CHR ''?'' \<in> set url4
                    then (takeWhile (\<lambda>c. c \<noteq> CHR ''?'') url4,
                          drop 1 (dropWhile (\<lambda>c. c \<noteq> CHR ''?'') url4))
                    else (url4, []))
             in Inr \<lparr>scheme = scheme2, netloc = nl, path = url5, params = [],
                     query = qry, fragment = frag\<rparr>))"

text \<open>\<open>_splitparams\<close>, called when the path has a semicolon.\<close>

definition splitparams :: "string \<Rightarrow> string \<times> string" where
  "splitparams url =
     (if CHR ''/'' \<in> set url
      then (case str_rpartition CHR ''/'' url of
              (dir, found, leaf) \<Rightarrow>
                if CHR '';'' \<in> set leaf
                then (dir @ ''/'' @ takeWhile (\<lambda>c. c \<noteq> CHR '';'') leaf,
                      drop 1 (dropWhile (\<lambda>c. c \<noteq> CHR '';'') leaf))
                else (url, []))
      else (takeWhile (\<lambda>c. c \<noteq> CHR '';'') url,
            drop 1 (dropWhile (\<lambda>c. c \<noteq> CHR '';'') url)))"

definition urlparse :: "string \<Rightarrow> string \<Rightarrow> py_exception + parse_result" where
  "urlparse url scheme0 =
     (case urlsplit url scheme0 of
        Inl e \<Rightarrow> Inl e
      | Inr r \<Rightarrow>
          if scheme r \<in> set uses_params \<and> CHR '';'' \<in> set (path r)
          then (let (url', ps) = splitparams (path r) in Inr (r\<lparr>path := url', params := ps\<rparr>))
          else Inr r)"

text \<open>The properties \<open>_hostinfo\<close>, \<open>hostname\<close> and \<open>port\<close> of a parse result;
  \<open>None\<close> is Python's \<open>None\<close>.\<close>

definition hostinfo :: "parse_result \<Rightarrow> string \<times> string option" where
  "hostinfo r =
     (case str_rpartition CHR ''@'' (netloc r) of
        (u, at, hostinfo) \<Rightarrow>
          (case str_partition CHR ''['' hostinfo of
             (b, have_open_br, bracketed) \<Rightarrow>
               let (hostname, port) =
                     (if have_open_br
                      then (case str_partition CHR '']'' bracketed of
                              (h, cl, p) \<Rightarrow>
                                (case str_partition CHR '':'' p of (x, co, p') \<Rightarrow> (h, p')))
                      else (case str_partition CHR '':'' hostinfo of (h, co, p) \<Rightarrow> (h, p)))
               in (hostname, if port = [] then None else Some port)))"

definition hostname :: "parse_result \<Rightarrow> string option" where
  "hostname r =
     (case hostinfo r of
        (h, p) \<Rightarrow>
          if h = [] then None
          else (case str_partition CHR ''%'' h of
                  (host, percent, zone) \<Rightarrow>
                    Some (lower host @ (if percent then ''%'' else []) @ zone)))"

definition port :: "parse_result \<Rightarrow> py_exception + int option" where
  "port r =
     (case hostinfo r of
        (h, None) \<Rightarrow> Inr None
      | (h, Some p) \<Rightarrow>
          if list_all is_ascii_digit p
          then (if int_of_digits 10 p \<le> 65535 then Inr (Some (int_of_digits 10 p))
                else Inl (ValueError ''Port out of range 0-65535''))
          else Inl (ValueError (''Port could not be cast to integer value as '' @ repr p)))"

definition urlunsplit :: "string \<Rightarrow> string \<Rightarrow> string \<Rightarrow> string \<Rightarrow> string \<Rightarrow> string" where
  "urlunsplit sch nl url0 qry frag =
     (let url1 = (if nl \<noteq> [] \<or> (sch \<noteq> [] \<and> sch \<in> set uses_netloc \<and> take 2 url0 \<noteq> ''//'')
                  then ''//'' @ nl @ (if url0 \<noteq> [] \<and> take 1 url0 \<noteq> ''/'' then ''/'' @ url0 else url0)
                  else url0);
          url2 = (if sch \<noteq> [] then sch @ '':'' @ url1 else url1);
          url3 = (if qry \<noteq> [] then url2 @ ''?'' @ qry else url2)
      in if frag \<noteq> [] then url3 @ ''#'' @ frag else url3)"

definition urlunparse :: "parse_result \<Rightarrow> string" where
  "urlunparse r =
     urlunsplit (scheme r) (netloc r)
       (if params r \<noteq> [] then path r @ '';'' @ params r else path r)
       (query r) (fragment r)"

text \<open>The loop of \<open>urljoin\<close> over the path segments, on the reversed stack
  \<open>resolved_path\<close>.\<close>

fun resolve_segments :: "string list \<Rightarrow> string list \<Rightarrow> string list" where
  "resolve_segments resolved [] = resolved"
| "resolve_segments resolved (seg # segs) =
     (if seg = ''..'' then resolve_segments (butlast resolved) segs
      else if seg = ''.'' then resolve_segments resolved segs
      else resolve_segments (resolved @ [seg]) segs)"

definition urljoin :: "string \<Rightarrow> string \<Rightarrow> py_exception + string" where
  "urljoin base url =
     (if base = [] then Inr url
      else if url = [] then Inr base
      else
        (case urlparse base [] of
           Inl e \<Rightarrow> Inl e
         | Inr b \<Rightarrow>
             (case urlparse url (scheme b) of
                Inl e \<Rightarrow> Inl e
              | Inr u \<Rightarrow>
                  if scheme u \<noteq> scheme b \<or> scheme u \<notin> set uses_relative then Inr url
                  else if scheme u \<in> set uses_netloc \<and> netloc u \<noteq> [] then Inr (urlunparse u)
                  else
                    let nl = (if scheme u \<in> set uses_netloc then netloc b else netloc u)
                    in
                      if path u = [] \<and> params u = []
                      then Inr (urlunparse
                                  (u\<lparr>netloc := nl, path := path b, params := params b,
                                     query := (if query u = [] then query b else query u)\<rparr>))
                      else
                        let base_parts0 = str_split CHR ''/'' (path b);
                            base_parts = (if last base_parts0 \<noteq> [] then butlast base_parts0
                                          else base_parts0);
                            segments =
                              (if take 1 (path u) = ''/'' then str_split CHR ''/'' (path u)
                               else
                                 (let segs = base_parts @ str_split CHR ''/'' (path u)
                                  in if length segs < 2 then segs
                                     else hd segs # filter (\<lambda>s. s \<noteq> []) (butlast (tl segs))
                                            @ [last segs]));
                            resolved0 = resolve_segments [] segments;
                            resolved_path = (if last segments \<in> {''.'', ''..''}
                                             then resolved0 @ [[]] else resolved0);
                            joined = str_join ''/'' resolved_path
                        in Inr (urlunparse
                                  (u\<lparr>netloc := nl,
                                     path := (if joined = [] then ''/'' else joined)\<rparr>)))))"

section \<open>URL normalizer and SSRF guard\<close>

text \<open>The networks of \<open>BLOCKED_IP_RANGES\<close>: network address and prefix length.\<close>

definition BLOCKED_IP_RANGES :: "ip_network list" where
  "BLOCKED_IP_RANGES =
     [(127 * 2 ^ 24, 8),
      (10 * 2 ^ 24, 8),
      (172 * 2 ^ 24 + 16 * 2 ^ 16, 12),
      (192 * 2 ^ 24 + 168 * 2 ^ 16, 16),
      (169 * 2 ^ 24 + 254 * 2 ^ 16, 16),
      (0, 8)]"

definition BLOCKED_DOMAINS :: "string list" where
  "BLOCKED_DOMAINS = [''.local'', ''.internal'', ''.corp'', ''.localhost'']"

definition common_domains :: "string list" where
  "common_domains = [''google'', ''microsoft'', ''facebook'', ''amazon'', ''apple'']"

text \<open>\<open>a or b\<close> on an optional string and a string: \<open>parsed.hostname or
  parsed.netloc\<close>. The hostname is never the empty string.\<close>

definition or_else :: "string option \<Rightarrow> string \<Rightarrow> string" where
  "or_else a b = (case a of None \<Rightarrow> b | Some x \<Rightarrow> if x = [] then b else x)"

definition normalize_url :: "string \<Rightarrow> py_exception + string" where
  "normalize_url url0 =
     (let url1 = strip url0;
          url = (if \<not> (startswith url1 ''http://'' \<or> startswith url1 ''https://'')
                 then ''https://'' @ url1 else url1)
      in
        (case urlparse url [] of
           Inl e \<Rightarrow> Inl e
         | Inr parsed \<Rightarrow>
             let hostname0 = or_else (hostname parsed) (netloc parsed);
                 hostname1 = (if hostname0 = []
                              then (case str_split CHR '':'' (netloc parsed) of
                                      [] \<Rightarrow> []
                                    | p # ps \<Rightarrow> p)
                              else hostname0);
                 hostname2 =
                   (if hostname1 \<noteq> [] \<and> CHR ''.'' \<in> set hostname1
                    then (let parts = str_split CHR ''.'' hostname1
                          in if length parts = 2 \<and> \<not> startswith hostname1 ''www.''
                                \<and> lower (hd parts) \<in> set common_domains
                             then ''www.'' @ hostname1 else hostname1)
                    else hostname1);
                 scheme' = (if scheme parsed \<noteq> ''http'' then ''https'' else ''http'')
             in
               (case port parsed of
                  Inl e \<Rightarrow> Inl e
                | Inr p \<Rightarrow>
                    let netloc' = (case p of
                                     None \<Rightarrow> hostname2
                                   | Some n \<Rightarrow> if n \<noteq> 0 then hostname2 @ '':'' @ str_of_int n
                                               else hostname2)
                    in Inr (urlunparse
                              \<lparr>scheme = scheme', netloc = netloc',
                               path = (if path parsed = [] then ''/'' else path parsed),
                               params = params parsed, query = query parsed,
                               fragment = fragment parsed\<rparr>))))"

text \<open>
  \<open>re.match(r'^\d{1,3}\.\d{1,3}\.\d{1,3}\.\d{1,3}$', hostname)\<close>: four runs of one to
  three digits between dots; \<open>$\<close> also matches before a final newline.
\<close>

definition digits_1_3 :: "string \<Rightarrow> bool" where
  "digits_1_3 p = (1 \<le> length p \<and> length p \<le> 3 \<and> list_all is_ascii_digit p)"

definition match_dotted_quad :: "string \<Rightarrow> bool" where
  "match_dotted_quad h =
     (let body = (if h \<noteq> [] \<and> last h = CHR 0x0A then butlast h else h);
          parts = str_split CHR ''.'' body
      in length parts = 4 \<and> list_all digits_1_3 parts)"

definition validate_url :: "string \<Rightarrow> bool \<times> string" where
  "validate_url url =
     (case urlparse url [] of
        Inl e \<Rightarrow> (False, ''Invalid URL format: '' @ message e)
      | Inr parsed \<Rightarrow>
          if scheme parsed \<notin> set [''http'', ''https'']
          then (False, ''Invalid protocol: '' @ scheme parsed)
          else
            let hostname = or_else (hostname parsed) (netloc parsed)
            in
              if hostname = [] then (False, ''Invalid URL: No hostname'')
              else
                let hostname_lower = lower hostname
                in
                  (case find (\<lambda>blocked. endswith hostname_lower blocked) BLOCKED_DOMAINS of
                     Some blocked \<Rightarrow>
                       (False, ''Access to '' @ blocked @ '' domains is not allowed'')
                   | None \<Rightarrow>
                       if hostname_lower \<in> set [''localhost'', ''0.0.0.0'']
                       then (False, ''Access to localhost is not allowed'')
                       else if match_dotted_quad hostname
                       then
                         (case ip_address hostname of
                            Inl e \<Rightarrow> (True, [])
                          | Inr ip \<Rightarrow>
                              if list_ex (in_network ip) BLOCKED_IP_RANGES
                              then (False,
                                    ''Access to private/internal IP addresses is not allowed'')
                              else (True, []))
                       else (True, [])))"

section \<open>The authority of an http URL\<close>

text \<open>
  The authority that \<open>urlsplit\<close> cuts out of an input that, stripped, begins with
  \<open>http://\<close>: what follows these seven characters, without the tabs, carriage returns
  and line feeds that \<open>urlsplit\<close> removes, up to the first of \<open>/ ? #\<close>.
\<close>

definition authority :: "string \<Rightarrow> string" where
  "authority u =
     takeWhile (\<lambda>c. c \<notin> set ''/?#'')
       (filter (\<lambda>c. \<not> unsafe_url_byte c) (drop 7 (strip u)))"

text \<open>
  The two checks of the standard library that an authority can fail: the brackets of
  \<open>urlsplit\<close> (an opening bracket if and only if a closing one, and then
  \<open>_check_bracketed_netloc\<close>), and the port of the \<open>port\<close> property (decimal digits,
  at most 65535).
\<close>

definition well_formed_authority :: "string \<Rightarrow> bool" where
  "well_formed_authority nl =
     ((CHR ''['' \<in> set nl) = (CHR '']'' \<in> set nl)
      \<and> (CHR ''['' \<in> set nl \<longrightarrow> check_bracketed_netloc nl = Inr ())
      \<and> (case port \<lparr>scheme = ''http'', netloc = nl, path = [], params = [],
                     query = [], fragment = []\<rparr> of
           Inl e \<Rightarrow> False
         | Inr p \<Rightarrow> True))"

section \<open>HTML rewriter: regular expressions\<close>

definition dquote :: char where
  "dquote = CHR 0x22"

definition squote :: char where
  "squote = CHR 0x27"

definition backslash :: char where
  "backslash = CHR 0x5C"

definition sq :: string where
  "sq = [squote]"

text \<open>The bridge script, line by line; the lines are joined by newlines.\<close>

definition postmessage_script :: string where
  "postmessage_script =
     str_join [CHR 0x0A]
       ['''',
        ''<script>'',
        ''(function() {'',
        ''    // PostMessage bridge for navigation'',
        ''    window.addEventListener('' @ sq @ ''click'' @ sq @ '', function(e) {'',
        ''        var target = e.target;'',
        ''        var link = target.closest('' @ sq @ ''a'' @ sq @ '');'',
        ''        if (link && link.href) {'',
        ''            e.preventDefault();'',
        ''            window.parent.postMessage({'',
        ''                type: '' @ sq @ ''navigate'' @ sq @ '','',
        ''                url: link.href'',
        ''            }, '' @ sq @ ''*'' @ sq @ '');'',
        ''        }'',
        ''    }, true);'',
        '''',
        ''    // Intercept form submissions'',
        ''    window.addEventListener('' @ sq @ ''submit'' @ sq @ '', function(e) {'',
        ''        var form = e.target;'',
        ''        if (form.action) {'',
        ''            e.preventDefault();'',
        ''            var formData = new FormData(form);'',
        ''            var method = (form.method || '' @ sq @ ''GET'' @ sq @ '').toUpperCase();'',
        ''            window.parent.postMessage({'',
        ''                type: '' @ sq @ ''form_submit'' @ sq @ '','',
        ''                url: form.action,'',
        ''                method: method,'',
        ''                data: Object.fromEntries(formData)'',
        ''            }, '' @ sq @ ''*'' @ sq @ '');'',
        ''        }'',
        ''    }, true);'',
        '''',
        ''    // Log JavaScript errors'',
        ''    window.addEventListener('' @ sq @ ''error'' @ sq @ '', function(e) {'',
        ''        console.error('' @ sq @ ''Page error:'' @ sq @ '', e.message);'',
        ''    });'',
        '''',
        ''    console.log('' @ sq @ ''Elara Proxy Bridge initialized'' @ sq @ '');'',
        ''})();'',
        ''</script>'',
        '''']"

text \<open>
  A replacement template of \<open>re.sub\<close>, parsed as \<open>re._parser.parse_template\<close> does:
  literal text and references to groups. \<open>is_identifier_start\<close> and
  \<open>is_identifier_char\<close> are \<open>str.isidentifier\<close> below 256.
\<close>

datatype template_item = Literal string | Group_ref int

definition is_identifier_start :: "char \<Rightarrow> bool" where
  "is_identifier_start c =
     (let n = code c
      in is_ascii_alpha c \<or> n = 95 \<or> n = 170 \<or> n = 181 \<or> n = 186
         \<or> (192 \<le> n \<and> n \<noteq> 215 \<and> n \<noteq> 247))"

definition is_identifier_char :: "char \<Rightarrow> bool" where
  "is_identifier_char c = (is_identifier_start c \<or> is_ascii_digit c \<or> code c = 183)"

definition isidentifier :: "string \<Rightarrow> bool" where
  "isidentifier s =
     (case s of
        [] \<Rightarrow> False
      | c # cs \<Rightarrow> is_identifier_start c \<and> list_all is_identifier_char cs)"

text \<open>\<open>Tokenizer.getuntil(">", "group name")\<close>: the tokens up to the first token
  \<open>>\<close>; a backslash and the character after it are one token.\<close>

fun getuntil :: "string \<Rightarrow> string \<Rightarrow> py_exception + (string \<times> string)" where
  "getuntil acc [] =
     (if acc = [] then Inl (Re_error ''missing group name'')
      else Inl (Re_error ''missing >, unterminated name''))"
| "getuntil acc (c # s) =
     (if c = backslash
      then (case s of
              [] \<Rightarrow> Inl (Re_error ''bad escape (end of pattern)'')
            | d # s' \<Rightarrow> getuntil (acc @ [c, d]) s')
      else if c = CHR ''>''
      then (if acc = [] then Inl (Re_error ''missing group name'') else Inr (acc, s))
      else getuntil (acc @ [c]) s)"

definition escapes :: "(char \<times> char) list" where
  "escapes =
     [(CHR ''a'', CHR 0x07), (CHR ''b'', CHR 0x08), (CHR ''f'', CHR 0x0C),
      (CHR ''n'', CHR 0x0A), (CHR ''r'', CHR 0x0D), (CHR ''t'', CHR 0x09),
      (CHR ''v'', CHR 0x0B), (CHR 0x5C, CHR 0x5C)]"

text \<open>\<open>addgroup\<close>: a reference to a group the pattern does not have is an error.\<close>

definition addgroup :: "int \<Rightarrow> int \<Rightarrow> py_exception + template_item" where
  "addgroup groups index =
     (if index > groups
      then Inl (Re_error (''invalid group reference '' @ str_of_int index))
      else Inr (Group_ref index))"

text \<open>One escape of the template, after its backslash: the item it stands for and the
  rest of the template. The patterns of the rewriter have no named group, so that a
  reference by name is an \<open>IndexError\<close>.\<close>

definition parse_escape ::
    "int \<Rightarrow> char \<Rightarrow> string \<Rightarrow> py_exception + (template_item \<times> string)" where
  "parse_escape groups c s =
     (if c = CHR ''g''
      then
        (case s of
           [] \<Rightarrow> Inl (Re_error ''missing <'')
         | d # s' \<Rightarrow>
             if d \<noteq> CHR ''<'' then Inl (Re_error ''missing <'')
             else
               (case getuntil [] s' of
                  Inl e \<Rightarrow> Inl e
                | Inr (name, rest) \<Rightarrow>
                    if list_all is_ascii_digit name
                    then (case addgroup groups (int_of_digits 10 name) of
                            Inl e \<Rightarrow> Inl e
                          | Inr g \<Rightarrow> Inr (g, rest))
                    else if \<not> isidentifier name
                    then Inl (Re_error (''bad character in group name '' @ repr name))
                    else Inl (IndexError (''unknown group name '' @ repr name))))
      else if c = CHR ''0''
      then
        (let ds = takeWhile is_oct_digit (take 2 s)
         in Inr (Literal [char_of (int_of_digits 8 ds mod 256)], drop (length ds) s))
      else if is_ascii_digit c
      then
        (case s of
           d # s' \<Rightarrow>
             if is_ascii_digit d
             then
               (case s' of
                  e # s'' \<Rightarrow>
                    if is_oct_digit c \<and> is_oct_digit d \<and> is_oct_digit e
                    then (if int_of_digits 8 [c, d, e] > 255
                          then Inl (Re_error (''octal escape value '' @ [backslash, c, d, e]
                                              @ '' outside of range 0-0o377''))
                          else Inr (Literal [char_of (int_of_digits 8 [c, d, e])], s''))
                    else (case addgroup groups (int_of_digits 10 [c, d]) of
                            Inl x \<Rightarrow> Inl x
                          | Inr g \<Rightarrow> Inr (g, s'))
                | [] \<Rightarrow> (case addgroup groups (int_of_digits 10 [c, d]) of
                           Inl x \<Rightarrow> Inl x
                         | Inr g \<Rightarrow> Inr (g, s')))
             else (case addgroup groups (int_of_digits 10 [c]) of
                     Inl x \<Rightarrow> Inl x
                   | Inr g \<Rightarrow> Inr (g, s))
         | [] \<Rightarrow> (case addgroup groups (int_of_digits 10 [c]) of
                    Inl x \<Rightarrow> Inl x
                  | Inr g \<Rightarrow> Inr (g, s)))
      else
        (case map_of escapes c of
           Some x \<Rightarrow> Inr (Literal [x], s)
         | None \<Rightarrow>
             if is_ascii_alpha c then Inl (Re_error (''bad escape '' @ [backslash, c]))
             else Inr (Literal [backslash, c], s)))"

lemma getuntil_shorter:
  "getuntil acc s = Inr (name, rest) \<Longrightarrow> length rest < length s"
proof (induction acc s rule: getuntil.induct)
  case (1 acc)
  then show ?case by (simp split: if_splits)
next
  case (2 acc c s)
  then show ?case
    by (fastforce split: if_splits list.splits)
qed

lemma parse_escape_shorter:
  "parse_escape groups c s = Inr (item, rest) \<Longrightarrow> length rest \<le> length s"
  unfolding parse_escape_def addgroup_def
  by (auto simp: Let_def split: if_splits list.splits sum.splits option.splits
           dest: getuntil_shorter)

function parse_template :: "int \<Rightarrow> string \<Rightarrow> py_exception + template_item list" where
  "parse_template groups [] = Inr []"
| "parse_template groups (c # s) =
     (if c \<noteq> backslash
      then (case parse_template groups s of
              Inl e \<Rightarrow> Inl e
            | Inr items \<Rightarrow> Inr (Literal [c] # items))
      else
        (case s of
           [] \<Rightarrow> Inl (Re_error ''bad escape (end of pattern)'')
         | d # s' \<Rightarrow>
             (case parse_escape groups d s' of
                Inl e \<Rightarrow> Inl e
              | Inr (item, rest) \<Rightarrow>
                  (case parse_template groups rest of
                     Inl e \<Rightarrow> Inl e
                   | Inr items \<Rightarrow> Inr (item # items)))))"
  by pat_completeness auto
termination
  by (relation "measure (\<lambda>(groups, s). length s)")
     (auto dest: parse_escape_shorter)

text \<open>A match is the list of its groups, group 0 (the whole match) first. Expanding a
  parsed template puts the text of the group in the place of each reference.\<close>

fun expand_template :: "template_item list \<Rightarrow> string list \<Rightarrow> string" where
  "expand_template [] m = []"
| "expand_template (Literal s # items) m = s @ expand_template items m"
| "expand_template (Group_ref i # items) m = (m ! nat i) @ expand_template items m"

text \<open>
  \<open>re.sub(pattern, repl, string)\<close> with a function \<open>repl\<close>: the matches are found
  from left to right, each is replaced by what \<open>repl\<close> returns for it, and the search
  goes on after the match. \<open>matcher s\<close> tells whether the pattern matches at the start
  of \<open>s\<close>: the groups and the length of the match. No pattern of the rewriter matches
  the empty string. An exception of \<open>repl\<close> ends the substitution.
\<close>

function re_sub ::
    "(string \<Rightarrow> (string list \<times> nat) option) \<Rightarrow> (string list \<Rightarrow> py_exception + string)
      \<Rightarrow> string \<Rightarrow> py_exception + string" where
  "re_sub matcher repl [] = Inr []"
| "re_sub matcher repl (c # s) =
     (case matcher (c # s) of
        None \<Rightarrow>
          (case re_sub matcher repl s of
             Inl e \<Rightarrow> Inl e
           | Inr t \<Rightarrow> Inr (c # t))
      | Some (m, n) \<Rightarrow>
          (case repl m of
             Inl e \<Rightarrow> Inl e
           | Inr r \<Rightarrow>
               (case re_sub matcher repl (drop (max 1 n) (c # s)) of
                  Inl e \<Rightarrow> Inl e
                | Inr t \<Rightarrow> Inr (r @ t))))"
  by pat_completeness auto
termination
  by (relation "measure (\<lambda>(matcher, repl, s). length s)") auto

text \<open>\<open>re.sub\<close> with a template string: the template is parsed before the search
  starts.\<close>

definition re_sub_template ::
    "(string \<Rightarrow> (string list \<times> nat) option) \<Rightarrow> int \<Rightarrow> string \<Rightarrow> string
      \<Rightarrow> py_exception + string" where
  "re_sub_template matcher groups template s =
     (case parse_template groups template of
        Inl e \<Rightarrow> Inl e
      | Inr items \<Rightarrow> re_sub matcher (\<lambda>m. Inr (expand_template items m)) s)"

text \<open>
  The patterns, each with \<open>re.IGNORECASE\<close>. A literal of lower-case ASCII letters and
  punctuation matches the text whose lowered form it is.

  \<open>(<head[^>]*>)\<close> and \<open>(<html[^>]*>)\<close>: the tag name, then everything up to the
  first \<open>>\<close>. Group 1 is the whole match.
\<close>

definition match_tag :: "string \<Rightarrow> string \<Rightarrow> (string list \<times> nat) option" where
  "match_tag name s =
     (if lower (take (length name) s) = name \<and> CHR ''>'' \<in> set (drop (length name) s)
      then (let n = length name
                      + length (takeWhile (\<lambda>c. c \<noteq> CHR ''>'') (drop (length name) s)) + 1
            in Some ([take n s, take n s], n))
      else None)"

text \<open>\<open>((?:src|href)\s*=\s*["\'])([^"\']+)(["\'])\<close>.\<close>

definition is_quote :: "char \<Rightarrow> bool" where
  "is_quote c = (c = dquote \<or> c = squote)"

definition match_attr :: "string \<Rightarrow> (string list \<times> nat) option" where
  "match_attr s =
     (case (if lower (take 3 s) = ''src'' then Some 3
            else if lower (take 4 s) = ''href'' then Some 4 else None) of
        None \<Rightarrow> None
      | Some k \<Rightarrow>
          let ws1 = takeWhile isspace (drop k s);
              r2 = dropWhile isspace (drop k s)
          in
            (case r2 of
               [] \<Rightarrow> None
             | eq # r3 \<Rightarrow>
                 if eq \<noteq> CHR ''='' then None
                 else
                   let ws2 = takeWhile isspace r3;
                       r4 = dropWhile isspace r3
                   in
                     (case r4 of
                        [] \<Rightarrow> None
                      | q # r5 \<Rightarrow>
                          if \<not> is_quote q then None
                          else
                            let v = takeWhile (\<lambda>c. \<not> is_quote c) r5;
                                r6 = dropWhile (\<lambda>c. \<not> is_quote c) r5
                            in
                              (case r6 of
                                 [] \<Rightarrow> None
                               | q' # r7 \<Rightarrow>
                                   if v = [] then None
                                   else
                                     let g1 = take k s @ ws1 @ [eq] @ ws2 @ [q]
                                     in Some ([g1 @ v @ [q'], g1, v, [q']],
                                              length g1 + length v + 1)))))"

text \<open>\<open>url\(([^\)]+)\)\<close>.\<close>

definition match_css_url :: "string \<Rightarrow> (string list \<times> nat) option" where
  "match_css_url s =
     (if lower (take 4 s) = ''url(''
      then (let v = takeWhile (\<lambda>c. c \<noteq> CHR '')'') (drop 4 s);
                r = dropWhile (\<lambda>c. c \<noteq> CHR '')'') (drop 4 s)
            in if v \<noteq> [] \<and> r \<noteq> []
               then Some ([take 4 s @ v @ '')'', v], 4 + length v + 1)
               else None)
      else None)"

section \<open>HTML rewriter: \<open>rewrite_html_content\<close>\<close>

text \<open>The two nested functions, called with the groups of a match.\<close>

definition rewrite_absolute_url :: "string \<Rightarrow> string list \<Rightarrow> py_exception + string" where
  "rewrite_absolute_url base_url m =
     (let attr_name = m ! 1;
          url = m ! 2
      in if startswith url ''http://'' \<or> startswith url ''https://'' \<or> startswith url ''//''
         then (case urljoin base_url url of
                 Inl e \<Rightarrow> Inl e
               | Inr absolute_url \<Rightarrow>
                   Inr (attr_name @ ''='' @ [dquote] @ absolute_url @ [dquote]))
         else Inr (m ! 0))"

definition rewrite_css_url :: "string \<Rightarrow> string list \<Rightarrow> py_exception + string" where
  "rewrite_css_url base_url m =
     (let url = strip_chars is_quote (m ! 1)
      in if \<not> startswith url ''data:''
         then (case urljoin base_url url of
                 Inl e \<Rightarrow> Inl e
               | Inr absolute_url \<Rightarrow>
                   Inr (''url('' @ [dquote] @ absolute_url @ [dquote] @ '')''))
         else Inr (m ! 0))"

text \<open>The four steps of the \<open>try\<close> block. Each returns the new value of \<open>html\<close>, or
  the exception that ends the block.\<close>

definition inject_script :: "string \<Rightarrow> py_exception + string" where
  "inject_script html =
     (if contains ''<head>'' (lower html)
      then re_sub_template (match_tag ''<head'') 1
             ([backslash, CHR ''1''] @ postmessage_script) html
      else if contains ''<html>'' (lower html)
      then re_sub_template (match_tag ''<html'') 1
             ([backslash, CHR ''1''] @ ''<head>'' @ postmessage_script @ ''</head>'') html
      else Inr html)"

definition inject_base :: "string \<Rightarrow> string \<Rightarrow> py_exception + string" where
  "inject_base base_domain html =
     (if contains ''<head>'' (lower html) \<and> \<not> contains ''<base'' (lower html)
      then re_sub_template (match_tag ''<head'') 1
             ([backslash, CHR ''1''] @ ''<base href='' @ [dquote] @ base_domain @ ''/''
              @ [dquote] @ ''>'') html
      else Inr html)"

definition rewrite_attrs :: "string \<Rightarrow> string \<Rightarrow> py_exception + string" where
  "rewrite_attrs base_url html = re_sub match_attr (rewrite_absolute_url base_url) html"

definition rewrite_css :: "string \<Rightarrow> string \<Rightarrow> py_exception + string" where
  "rewrite_css base_url html = re_sub match_css_url (rewrite_css_url base_url) html"

text \<open>
  The function: the handler \<open>except Exception\<close> returns the variable \<open>html\<close> as it
  is bound when the exception is raised, and each step that has ended rebinds it.
\<close>

definition rewrite_html_content :: "string \<Rightarrow> string \<Rightarrow> string \<Rightarrow> string" where
  "rewrite_html_content html base_url session_token =
     (case urlparse base_url [] of
        Inl e \<Rightarrow> html
      | Inr parsed_base \<Rightarrow>
          let base_domain = scheme parsed_base @ ''://'' @ netloc parsed_base
          in
            (case inject_script html of
               Inl e \<Rightarrow> html
             | Inr html1 \<Rightarrow>
                 (case inject_base base_domain html1 of
                    Inl e \<Rightarrow> html1
                  | Inr html2 \<Rightarrow>
                      (case rewrite_attrs base_url html2 of
                         Inl e \<Rightarrow> html2
                       | Inr html3 \<Rightarrow>
                           (case rewrite_css base_url html3 of
                              Inl e \<Rightarrow> html3
                            | Inr html4 \<Rightarrow> html4)))))"

section \<open>Decompression cascade: \<open>decompress_content\<close>\<close>

text \<open>
  \<open>bytes.decode('utf-8', errors='ignore')\<close>, as CPython's decoder does it: the code
  points of the well-formed sequences, in order; an ill-formed sequence is dropped up to
  the byte that breaks it, and a sequence cut off by the end of the input is dropped
  whole. \<open>utf8_step\<close> reads one sequence: the code point, if there is one, and the
  number of bytes it takes.
\<close>

definition is_continuation :: "int \<Rightarrow> bool" where
  "is_continuation b = (128 \<le> b \<and> b < 192)"

definition utf8_step :: "int list \<Rightarrow> int option \<times> nat" where
  "utf8_step bs =
     (case bs of
        [] \<Rightarrow> (None, 0)
      | ch # r \<Rightarrow>
          if ch < 128 then (Some ch, 1)
          else if ch < 194 then (None, 1)
          else if ch < 224
          then (case r of
                  [] \<Rightarrow> (None, 1)
                | ch2 # r2 \<Rightarrow>
                    if is_continuation ch2 then (Some ((ch - 192) * 64 + (ch2 - 128)), 2)
                    else (None, 1))
          else if ch < 240
          then (case r of
                  [] \<Rightarrow> (None, 1)
                | ch2 # r2 \<Rightarrow>
                    if \<not> is_continuation ch2 \<or> (if ch2 < 160 then ch = 224 else ch = 237)
                    then (None, 1)
                    else (case r2 of
                            [] \<Rightarrow> (None, 2)
                          | ch3 # r3 \<Rightarrow>
                              if is_continuation ch3
                              then (Some ((ch - 224) * 4096 + (ch2 - 128) * 64 + (ch3 - 128)), 3)
                              else (None, 2)))
          else if ch < 245
          then (case r of
                  [] \<Rightarrow> (None, 1)
                | ch2 # r2 \<Rightarrow>
                    if \<not> is_continuation ch2 \<or> (if ch2 < 144 then ch = 240 else ch = 244)
                    then (None, 1)
                    else (case r2 of
                            [] \<Rightarrow> (None, 2)
                          | ch3 # r3 \<Rightarrow>
                              if \<not> is_continuation ch3 then (None, 2)
                              else (case r3 of
                                      [] \<Rightarrow> (None, 3)
                                    | ch4 # r4 \<Rightarrow>
                                        if is_continuation ch4
                                        then (Some ((ch - 240) * 262144 + (ch2 - 128) * 4096
                                                    + (ch3 - 128) * 64 + (ch4 - 128)), 4)
                                        else (None, 3))))
          else (None, 1))"

function utf8_decode_ignore :: "int list \<Rightarrow> int list" where
  "utf8_decode_ignore [] = []"
| "utf8_decode_ignore (b # bs) =
     (case utf8_step (b # bs) of
        (cp, n) \<Rightarrow>
          (case cp of None \<Rightarrow> [] | Some x \<Rightarrow> [x])
          @ utf8_decode_ignore (drop (max 1 n) (b # bs)))"
  by pat_completeness auto
termination
  by (relation "measure length") auto

text \<open>
  The decoded sample is a string of Unicode code points. \<open>ucs_isspace\<close> is
  \<open>str.isspace\<close> on a code point, which \<open>str.strip()\<close> uses. Only the capitals A-Z
  lower to an ASCII letter, so that \<open>'html' in sample.lower()\<close> looks for the four
  letters, in either case, next to each other.
\<close>

definition ucs_isspace :: "int \<Rightarrow> bool" where
  "ucs_isspace n =
     ((9 \<le> n \<and> n \<le> 13) \<or> (28 \<le> n \<and> n \<le> 32) \<or> n = 133 \<or> n = 160 \<or> n = 5760
      \<or> (8192 \<le> n \<and> n \<le> 8202) \<or> n = 8232 \<or> n = 8233 \<or> n = 8239 \<or> n = 8287
      \<or> n = 12288)"

definition ucs_strip :: "int list \<Rightarrow> int list" where
  "ucs_strip s = rev (dropWhile ucs_isspace (rev (dropWhile ucs_isspace s)))"

definition ascii_lower :: "int \<Rightarrow> int" where
  "ascii_lower n = (if 65 \<le> n \<and> n \<le> 90 then n + 32 else n)"

fun ucs_contains :: "int list \<Rightarrow> int list \<Rightarrow> bool" where
  "ucs_contains p [] = (p = [])"
| "ucs_contains p (c # s) = (take (length p) (c # s) = p \<or> ucs_contains p s)"

text \<open>The quick check on the first 100 bytes: the content looks like text already.\<close>

definition appears_decompressed :: "bytes \<Rightarrow> bool" where
  "appears_decompressed content =
     (let sample = ucs_strip (utf8_decode_ignore (map code (take 100 content)))
      in take 1 sample = [code CHR ''<''] \<or> take 1 sample = [code CHR ''{'']
         \<or> take 1 sample = [code CHR ''['']
         \<or> take 2 sample = [code CHR ''<'', code CHR ''!'']
         \<or> ucs_contains (map code ''html'') (map ascii_lower sample))"

text \<open>
  The decompression libraries are parameters: \<open>gzip.decompress\<close>,
  \<open>zlib.decompress(content)\<close>, \<open>zlib.decompress(content, -zlib.MAX_WBITS)\<close>, and
  \<open>import brotli; brotli.decompress(content)\<close>. Each returns the decoded bytes or
  raises.
\<close>

record codecs =
  gzip_decompress :: "bytes \<Rightarrow> py_exception + bytes"
  zlib_decompress :: "bytes \<Rightarrow> py_exception + bytes"
  zlib_decompress_raw :: "bytes \<Rightarrow> py_exception + bytes"
  brotli_decompress :: "bytes \<Rightarrow> py_exception + bytes"

text \<open>The body of the second \<open>try\<close>, with the handlers of its inner \<open>try\<close> blocks.\<close>

definition decompress_dispatch :: "codecs \<Rightarrow> bytes \<Rightarrow> string \<Rightarrow> py_exception + bytes" where
  "decompress_dispatch lib content encoding_lower =
     (if contains ''gzip'' encoding_lower
      then (case gzip_decompress lib content of
              Inr decompressed \<Rightarrow> Inr decompressed
            | Inl e \<Rightarrow> Inr content)
      else if contains ''deflate'' encoding_lower
      then (case zlib_decompress lib content of
              Inr decompressed \<Rightarrow> Inr decompressed
            | Inl Zlib_error \<Rightarrow>
                (case zlib_decompress_raw lib content of
                   Inr decompressed \<Rightarrow> Inr decompressed
                 | Inl e \<Rightarrow> Inr content)
            | Inl e \<Rightarrow> Inl e)
      else if contains ''br'' encoding_lower
      then (case brotli_decompress lib content of
              Inr decompressed \<Rightarrow> Inr decompressed
            | Inl e \<Rightarrow> Inr content)
      else Inr content)"

text \<open>The function: \<open>Inl\<close> would be an exception that leaves it.\<close>

definition decompress_content :: "codecs \<Rightarrow> bytes \<Rightarrow> string \<Rightarrow> py_exception + bytes" where
  "decompress_content lib content encoding =
     (if encoding = [] then Inr content
      else
        let encoding_lower = lower encoding
        in if length content > 0 \<and> appears_decompressed content then Inr content
           else (case decompress_dispatch lib content encoding_lower of
                   Inr r \<Rightarrow> Inr r
                 | Inl e \<Rightarrow> Inr content))"

section \<open>Header sanitizer: \<open>strip_security_headers\<close>\<close>

definition blocked_headers :: "string list" where
  "blocked_headers =
     [''x-frame-options'',
      ''content-security-policy'',
      ''content-security-policy-report-only'',
      ''x-content-type-options'',
      ''x-xss-protection'',
      ''cross-origin-embedder-policy'',
      ''cross-origin-opener-policy'',
      ''cross-origin-resource-policy'',
      ''set-cookie'',
      ''set-cookie2'',
      ''content-encoding'',
      ''transfer-encoding'',
      ''content-length'',
      ''strict-transport-security'',
      ''public-key-pins'',
      ''expect-ct'',
      ''referrer-policy'',
      ''permissions-policy'',
      ''feature-policy'']"

text \<open>
  A \<open>dict\<close> of headers is an association list in insertion order. The loop over
  \<open>headers.items()\<close> copies an entry when its lowered key is not in the list.
\<close>

fun strip_security_headers :: "(string \<times> string) list \<Rightarrow> (string \<times> string) list" where
  "strip_security_headers [] = []"
| "strip_security_headers ((key, v) # headers) =
     (if lower key \<notin> set blocked_headers
      then (key, v) # strip_security_headers headers
      else strip_security_headers headers)"

section \<open>The entry points\<close>

definition REQUEST_TIMEOUT :: int where
  "REQUEST_TIMEOUT = 30"

definition MAX_RESPONSE_SIZE :: int where
  "MAX_RESPONSE_SIZE = 50 * 1024 * 1024"

definition BROWSER_USER_AGENT :: string where
  "BROWSER_USER_AGENT =
     ''Mozilla/5.0 (Windows NT 10.0; Win64; x64) AppleWebKit/537.36 ''
     @ ''(KHTML, like Gecko) Chrome/131.0.0.0 Safari/537.36''"

definition BROWSER_HEADERS :: "(string \<times> string) list" where
  "BROWSER_HEADERS =
     [(''User-Agent'', BROWSER_USER_AGENT),
      (''Accept'',
       ''text/html,application/xhtml+xml,application/xml;q=0.9,image/avif,image/webp,''
       @ ''image/apng,*/*;q=0.8''),
      (''Accept-Language'', ''en-US,en;q=0.9''),
      (''Accept-Encoding'', ''gzip, deflate, br, zstd''),
      (''DNT'', ''1''),
      (''Connection'', ''keep-alive''),
      (''Upgrade-Insecure-Requests'', ''1''),
      (''Sec-Fetch-Dest'', ''document''),
      (''Sec-Fetch-Mode'', ''navigate''),
      (''Sec-Fetch-Site'', ''none''),
      (''Sec-Fetch-User'', ''?1''),
      (''sec-ch-ua'',
       [dquote] @ ''Google Chrome'' @ [dquote] @ '';v='' @ [dquote] @ ''131'' @ [dquote]
       @ '', '' @ [dquote] @ ''Chromium'' @ [dquote] @ '';v='' @ [dquote] @ ''131'' @ [dquote]
       @ '', '' @ [dquote] @ ''Not_A Brand'' @ [dquote] @ '';v='' @ [dquote] @ ''24''
       @ [dquote]),
      (''sec-ch-ua-mobile'', ''?0''),
      (''sec-ch-ua-platform'', [dquote] @ ''Windows'' @ [dquote])]"

text \<open>
  The response of \<open>requests\<close>: the body as received, the headers (a case-insensitive
  dictionary, here the list of its items), the final URL, the status and the cookies.
\<close>

record upstream_response =
  content :: bytes
  headers :: "(string \<times> string) list"
  url :: string
  status_code :: int
  cookies :: "(string \<times> string) list"

text \<open>\<open>response.headers.get(key, dflt)\<close>: the keys compare without case.\<close>

definition headers_get :: "(string \<times> string) list \<Rightarrow> string \<Rightarrow> string \<Rightarrow> string" where
  "headers_get hs key dflt =
     (case find (\<lambda>(k, v). lower k = lower key) hs of
        None \<Rightarrow> dflt
      | Some (k, v) \<Rightarrow> v)"

text \<open>
  What the handlers take from outside: \<open>urllib.parse.unquote\<close>, the HTTP client
  (URL, request headers, cookies; it returns the response or raises) and the
  decompression libraries. \<open>session_cookies\<close> is the module's dictionary of cookie jars.
\<close>

record environment =
  unquote :: "string \<Rightarrow> string"
  http_get :: "string \<Rightarrow> (string \<times> string) list \<Rightarrow> (string \<times> string) list
                 \<Rightarrow> py_exception + upstream_response"
  codecs_of :: codecs

type_synonym cookie_store = "string \<rightharpoonup> (string \<times> string) list"

definition get_session_cookies :: "cookie_store \<Rightarrow> string \<Rightarrow> (string \<times> string) list" where
  "get_session_cookies session_cookies session_token =
     (case session_cookies session_token of None \<Rightarrow> [] | Some jar \<Rightarrow> jar)"

text \<open>
  What a handler returns: a JSON object with an \<open>error\<close> and a status, the raw body of
  a resource, or the JSON object of a page. The list in \<open>Resource_response\<close> holds the
  headers that the handler itself assigns to the response object, in the order of the
  assignments; the headers that Flask adds on its own when it sends the response
  (\<open>Content-Length\<close> among them) are not part of the model.
\<close>

record page =
  page_content :: string
  page_status_code :: int
  page_headers :: "(string \<times> string) list"
  page_final_url :: string
  page_content_type :: string

datatype flask_response =
    Error_response int string
  | Resource_response bytes "(string \<times> string) list"
  | Page_response page

text \<open>
  \<open>proxy_resource\<close>, the handler of \<open>/resource\<close>, with the query parameters \<open>url\<close>
  and \<open>session\<close>. The \<open>try\<close> block ends in the resource response or in an exception,
  which the handler turns into status 500.
\<close>

definition proxy_resource_body ::
    "environment \<Rightarrow> cookie_store \<Rightarrow> string option \<Rightarrow> string option
      \<Rightarrow> py_exception + flask_response" where
  "proxy_resource_body env session_cookies url_arg session_arg =
     (let session_id = (case session_arg of None \<Rightarrow> ''anonymous'' | Some s \<Rightarrow> s)
      in
        (case url_arg of
           None \<Rightarrow> Inr (Error_response 400 ''Missing url parameter'')
         | Some resource_url0 \<Rightarrow>
             if resource_url0 = [] then Inr (Error_response 400 ''Missing url parameter'')
             else
               let resource_url = unquote env resource_url0;
                   (is_valid, error_msg) = validate_url resource_url
               in
                 if \<not> is_valid then Inr (Error_response 403 error_msg)
                 else
                   (case http_get env resource_url BROWSER_HEADERS
                           (get_session_cookies session_cookies session_id) of
                      Inl e \<Rightarrow> Inl e
                    | Inr response \<Rightarrow>
                        let content_encoding =
                              lower (headers_get (headers response) ''content-encoding'' [])
                        in
                          (case (if content_encoding \<noteq> []
                                 then decompress_content (codecs_of env) (content response)
                                        content_encoding
                                 else Inr (content response)) of
                             Inl e \<Rightarrow> Inl e
                           | Inr content' \<Rightarrow>
                               let content_type =
                                     headers_get (headers response) ''content-type''
                                       ''application/octet-stream''
                               in Inr (Resource_response content'
                                         [(''Content-Type'', content_type),
                                          (''Access-Control-Allow-Origin'', ''*'')])))))"

definition proxy_resource ::
    "environment \<Rightarrow> cookie_store \<Rightarrow> string option \<Rightarrow> string option \<Rightarrow> flask_response" where
  "proxy_resource env session_cookies url_arg session_arg =
     (case proxy_resource_body env session_cookies url_arg session_arg of
        Inr r \<Rightarrow> r
      | Inl e \<Rightarrow> Error_response 500 ''Failed to fetch resource'')"

text \<open>
  \<open>proxy_request\<close>, the handler of \<open>/proxy\<close>, from the response of the upstream
  request to the size check. What follows the check (charset detection, decoding,
  rewriting of HTML, header stripping) is the parameter \<open>finish\<close>, called with the
  decompressed content.
\<close>

definition proxy_request_response ::
    "codecs \<Rightarrow> (bytes \<Rightarrow> upstream_response \<Rightarrow> py_exception + flask_response)
      \<Rightarrow> upstream_response \<Rightarrow> py_exception + flask_response" where
  "proxy_request_response lib finish response =
     (let content_encoding = lower (headers_get (headers response) ''content-encoding'' [])
      in
        (case (if content_encoding \<noteq> []
               then decompress_content lib (content response) content_encoding
               else Inr (content response)) of
           Inl e \<Rightarrow> Inl e
         | Inr content' \<Rightarrow>
             if int (length content') > MAX_RESPONSE_SIZE
             then Inr (Error_response 413 ''Response too large. Maximum size is 50.0MB'')
             else finish content' response))"

section \<open>Sample inputs\<close>

text \<open>Libraries that fail on every input: what the service meets when the body is not
  compressed at all.\<close>

definition failing_codecs :: codecs where
  "failing_codecs =
     \<lparr>gzip_decompress = (\<lambda>b. Inl Codec_error),
      zlib_decompress = (\<lambda>b. Inl Zlib_error),
      zlib_decompress_raw = (\<lambda>b. Inl Zlib_error),
      brotli_decompress = (\<lambda>b. Inl Codec_error)\<rparr>"

text \<open>
  A gzip stream of the four bytes \<open>html\<close> in a stored block, as
  \<open>gzip.compress(b"html", compresslevel=0, mtime=0)\<close> writes it; the gzip stream of
  \<open>hello\<close> as \<open>gzip.compress(b"hello", mtime=0)\<close> writes it; and eight bytes of
  plain text, \<open>sz9m[u7\<close> and a space, which are not a zlib stream but are a complete
  raw deflate stream: \<open>zlib.decompress\<close> with \<open>-zlib.MAX_WBITS\<close> decodes them to
  the six bytes of \<open>inflated_text\<close>. \<open>sample_codecs\<close> are libraries that behave
  as the real ones do on these three inputs.
\<close>

definition gzip_of_html :: bytes where
  "gzip_of_html =
     map char_of
       [31, 139, 8, 0, 0, 0, 0, 0, 4, 3, 1, 4, 0, 251, 255, 104, 116, 109, 108,
        229, 248, 121, 24, 4, 0, 0, 0 :: int]"

definition gzip_of_hello :: bytes where
  "gzip_of_hello =
     map char_of
       [31, 139, 8, 0, 0, 0, 0, 0, 2, 3, 203, 72, 205, 201, 201, 7, 0, 134, 166,
        16, 54, 5, 0, 0, 0 :: int]"

definition deflate_like_text :: bytes where
  "deflate_like_text = ''sz9m[u7 ''"

definition inflated_text :: bytes where
  "inflated_text = map char_of [66, 233, 150, 182, 123, 139 :: int]"

definition sample_codecs :: codecs where
  "sample_codecs =
     \<lparr>gzip_decompress =
        (\<lambda>b. if b = gzip_of_html then Inr ''html''
              else if b = gzip_of_hello then Inr ''hello'' else Inl Codec_error),
      zlib_decompress = (\<lambda>b. Inl Zlib_error),
      zlib_decompress_raw =
        (\<lambda>b. if b = deflate_like_text then Inr inflated_text else Inl Zlib_error),
      brotli_decompress = (\<lambda>b. Inl Codec_error)\<rparr>"

text \<open>
  An upstream that answers every request with a style sheet, and one that answers
  with a body one byte over the size limit. The requests carry no percent escape, so
  that \<open>unquote\<close> leaves them as they are.
\<close>

definition css_environment :: environment where
  "css_environment =
     \<lparr>unquote = (\<lambda>s. s),
      http_get = (\<lambda>u hs cs.
         Inr \<lparr>content = ''a { background: url(img/a.png) }'',
              headers = [(''Content-Type'', ''text/css'')],
              url = u, status_code = 200, cookies = []\<rparr>),
      codecs_of = failing_codecs\<rparr>"

definition big_body :: bytes where
  "big_body = replicate 52428801 (CHR ''a'')"

definition big_environment :: environment where
  "big_environment =
     \<lparr>unquote = (\<lambda>s. s),
      http_get = (\<lambda>u hs cs.
         Inr \<lparr>content = big_body,
              headers = [(''Content-Type'', ''application/octet-stream'')],
              url = u, status_code = 200, cookies = []\<rparr>),
      codecs_of = failing_codecs\<rparr>"

text \<open>A fragment whose \<open>html\<close> and \<open>head\<close> tags carry attributes.\<close>

definition tagged_fragment :: string where
  "tagged_fragment =
     ''<html lang=en><head id=h><img src='' @ [dquote] @ ''//cdn.example.org/a.png''
     @ [dquote] @ ''>''"

text \<open>
  A page with an absolute link and a CSS reference whose URL has an unmatched bracket:
  \<open><a href="http://a/">url(http://[)\<close>.
\<close>

definition broken_css_page :: string where
  "broken_css_page = ''<a href='' @ [dquote] @ ''http://a/'' @ [dquote] @ ''>url(http://[)''"

section \<open>Evaluation\<close>

text \<open>The defining equations that the simplifier unfolds to evaluate the model on a
  concrete input. The bridge script stays folded.\<close>

lemmas py_defs =
  code_def lower_char_def lower_def isspace_def strip_def lstrip_chars_def
  strip_chars_def startswith_def endswith_def str_partition_def str_rpartition_def
  is_ascii_digit_def is_ascii_alpha_def is_hex_digit_def is_oct_digit_def
  digit_value_def int_of_digits_def digit_char_def str_of_int_def hex_of_int_def
  repr_char_def repr_def parse_octet_def IPv4Address_def parse_hextet_def
  ipv6_int_from_string_def IPv6Address_def ip_address_def uses_relative_def
  uses_netloc_def uses_params_def scheme_char_def c0_control_or_space_def
  unsafe_url_byte_def splitnetloc_def check_bracketed_host_def
  check_bracketed_netloc_def urlsplit_def splitparams_def urlparse_def hostinfo_def
  hostname_def port_def urlunsplit_def urlunparse_def urljoin_def BLOCKED_IP_RANGES_def
  BLOCKED_DOMAINS_def common_domains_def or_else_def normalize_url_def digits_1_3_def
  match_dotted_quad_def validate_url_def authority_def well_formed_authority_def
  dquote_def squote_def backslash_def sq_def is_identifier_start_def
  is_identifier_char_def isidentifier_def escapes_def addgroup_def parse_escape_def
  re_sub_template_def match_tag_def is_quote_def match_attr_def match_css_url_def
  rewrite_absolute_url_def rewrite_css_url_def inject_script_def inject_base_def
  rewrite_attrs_def rewrite_css_def rewrite_html_content_def is_continuation_def
  utf8_step_def ucs_isspace_def ucs_strip_def ascii_lower_def appears_decompressed_def
  decompress_dispatch_def decompress_content_def blocked_headers_def
  REQUEST_TIMEOUT_def MAX_RESPONSE_SIZE_def BROWSER_USER_AGENT_def BROWSER_HEADERS_def
  headers_get_def get_session_cookies_def proxy_resource_body_def proxy_resource_def
  proxy_request_response_def failing_codecs_def gzip_of_html_def gzip_of_hello_def
  deflate_like_text_def inflated_text_def sample_codecs_def css_environment_def
  big_environment_def tagged_fragment_def broken_css_page_def char_of_def Let_def

section \<open>Properties of the SSRF guard\<close>

lemma str_split_nonempty:
  "str_split c s \<noteq> []"
  by (induction s) (auto split: list.splits)

lemma str_split_chars:
  "x \<in> set s \<Longrightarrow> x = c \<or> (\<exists>p \<in> set (str_split c s). x \<in> set p)"
proof (induction s)
  case Nil
  then show ?case by simp
next
  case (Cons a s)
  obtain p ps where sp: "str_split c s = p # ps"
    using str_split_nonempty [of c s] by (cases "str_split c s") auto
  show ?case
  proof (cases "a = c")
    case True
    with Cons sp show ?thesis by auto
  next
    case False
    with Cons sp show ?thesis by auto
  qed
qed

lemma parse_octet_digits:
  "parse_octet p = Some n \<Longrightarrow> digits_1_3 p"
  unfolding parse_octet_def digits_1_3_def
  by (cases p) (auto simp: Let_def split: if_splits)

lemma IPv4Address_parts:
  assumes "IPv4Address h = Some ip"
  shows "h \<noteq> [] \<and> length (str_split CHR ''.'' h) = 4
         \<and> list_all digits_1_3 (str_split CHR ''.'' h)"
proof -
  from assms obtain a b c d where
    m: "map parse_octet (str_split CHR ''.'' h) = [Some a, Some b, Some c, Some d]"
    and ne: "h \<noteq> []"
    unfolding IPv4Address_def
    by (auto split: if_splits list.splits option.splits)
  from m have "length (map parse_octet (str_split CHR ''.'' h))
      = length [Some a, Some b, Some c, Some d]"
    by simp
  then have len: "length (str_split CHR ''.'' h) = 4"
    by simp
  have "parse_octet p \<noteq> None" if "p \<in> set (str_split CHR ''.'' h)" for p
  proof -
    from that have "parse_octet p \<in> set (map parse_octet (str_split CHR ''.'' h))"
      by simp
    with m show ?thesis by auto
  qed
  then have "list_all digits_1_3 (str_split CHR ''.'' h)"
    by (auto simp: list_all_iff dest: parse_octet_digits)
  with ne len show ?thesis by simp
qed

lemma IPv4Address_matches:
  assumes "IPv4Address h = Some ip"
  shows "match_dotted_quad h"
proof -
  from IPv4Address_parts [OF assms]
  have ne: "h \<noteq> []" and len: "length (str_split CHR ''.'' h) = 4"
    and dig: "list_all digits_1_3 (str_split CHR ''.'' h)"
    by simp_all
  have "CHR 0x0A \<notin> set h"
  proof
    assume "CHR 0x0A \<in> set h"
    from str_split_chars [OF this, of "CHR ''.''"]
    obtain p where "p \<in> set (str_split CHR ''.'' h)" and "CHR 0x0A \<in> set p"
      by auto
    with dig have "is_ascii_digit (CHR 0x0A)"
      by (auto simp: list_all_iff digits_1_3_def)
    then show False
      by (simp add: is_ascii_digit_def code_def)
  qed
  with ne have "last h \<noteq> CHR 0x0A"
    using last_in_set by metis
  with len dig show ?thesis
    by (simp add: match_dotted_quad_def)
qed

text \<open>
  C1, as stated, fails for IPv6: the guard looks only at dotted IPv4 literals, and the
  loopback address \<open>::1\<close> passes.
\<close>

theorem validate_url_ipv6_loopback_counterexample:
  "validate_url ''http://[::1]/'' = (True, [])"
  by (simp add: py_defs)

text \<open>
  C1, amended. For every URL that parses, whatever its scheme and path, whose hostname
  is an IPv4 literal as \<open>ipaddress\<close> reads it (four decimal octets, none with a leading
  zero) inside one of the blocked networks (\<open>127.0.0.0/8\<close>, \<open>10.0.0.0/8\<close>,
  \<open>172.16.0.0/12\<close>, \<open>192.168.0.0/16\<close>, \<open>169.254.0.0/16\<close>, \<open>0.0.0.0/8\<close>),
  \<open>validate_url\<close> rejects it and gives a reason.
\<close>

theorem validate_url_rejects_blocked_ipv4:
  assumes "urlparse u [] = Inr parsed"
    and "hostname parsed = Some h"
    and "ip_address h = Inr (IPv4 ip)"
    and "list_ex (in_network (IPv4 ip)) BLOCKED_IP_RANGES"
  shows "fst (validate_url u) = False \<and> snd (validate_url u) \<noteq> []"
proof -
  from assms(3) have v4: "IPv4Address h = Some ip"
    unfolding ip_address_def by (auto split: option.splits)
  then have ne: "h \<noteq> []"
    using IPv4Address_parts by blast
  have m: "match_dotted_quad h"
    using v4 by (rule IPv4Address_matches)
  from ne assms(2) have oe: "or_else (hostname parsed) (netloc parsed) = h"
    by (simp add: or_else_def)
  show ?thesis
    unfolding validate_url_def
    using assms(1) assms(3) assms(4) oe ne m
    by (auto simp: Let_def split: option.splits)
qed

theorem validate_url_rejects_blocked_ipv4_witness:
  "urlparse ''http://10.0.0.5/admin'' []
     = Inr \<lparr>scheme = ''http'', netloc = ''10.0.0.5'', path = ''/admin'', params = [],
            query = [], fragment = []\<rparr>
   \<and> hostname \<lparr>scheme = ''http'', netloc = ''10.0.0.5'', path = ''/admin'', params = [],
                query = [], fragment = []\<rparr> = Some ''10.0.0.5''
   \<and> ip_address ''10.0.0.5'' = Inr (IPv4 167772165)
   \<and> list_ex (in_network (IPv4 167772165)) BLOCKED_IP_RANGES
   \<and> fst (validate_url ''http://10.0.0.5/admin'') = False
   \<and> snd (validate_url ''http://10.0.0.5/admin'') \<noteq> []"
proof -
  have p: "urlparse ''http://10.0.0.5/admin'' []
     = Inr \<lparr>scheme = ''http'', netloc = ''10.0.0.5'', path = ''/admin'', params = [],
            query = [], fragment = []\<rparr>"
    by (simp add: py_defs)
  have h: "hostname \<lparr>scheme = ''http'', netloc = ''10.0.0.5'', path = ''/admin'',
                     params = [], query = [], fragment = []\<rparr> = Some ''10.0.0.5''"
    by (simp add: py_defs)
  have i: "ip_address ''10.0.0.5'' = Inr (IPv4 167772165)"
    by (simp add: py_defs)
  have b: "list_ex (in_network (IPv4 167772165)) BLOCKED_IP_RANGES"
    by (simp add: py_defs)
  from validate_url_rejects_blocked_ipv4 [OF p h i b] p h i b show ?thesis
    by simp
qed

section \<open>Properties of the URL normalizer\<close>
























section \<open>Properties of the HTML rewriter\<close>

text \<open>
  C9. For every input HTML whose lowered text contains neither \<open><head>\<close> nor
  \<open><html>\<close>, neither injection step changes the document, and the result of
  \<open>rewrite_html_content\<close> is the input with only the \<open>src\<close>/\<open>href\<close> rewriting and
  the CSS \<open>url()\<close> rewriting applied (and, as always, the text as it stood before the
  step that raised, when one raises).
\<close>

theorem rewrite_html_content_without_head:
  assumes "\<not> contains ''<head>'' (lower html)" and "\<not> contains ''<html>'' (lower html)"
  shows "inject_script html = Inr html
         \<and> inject_base base_domain html = Inr html
         \<and> rewrite_html_content html base_url session_token
            = (case urlparse base_url [] of
                 Inl e \<Rightarrow> html
               | Inr parsed_base \<Rightarrow>
                   (case rewrite_attrs base_url html of
                      Inl e \<Rightarrow> html
                    | Inr html3 \<Rightarrow>
                        (case rewrite_css base_url html3 of
                           Inl e \<Rightarrow> html3
                         | Inr html4 \<Rightarrow> html4)))"
  using assms
  unfolding rewrite_html_content_def inject_script_def inject_base_def
  by (simp add: Let_def split: sum.splits)

theorem rewrite_html_content_without_head_witness:
  "\<not> contains ''<head>'' (lower tagged_fragment)
   \<and> \<not> contains ''<html>'' (lower tagged_fragment)
   \<and> rewrite_html_content tagged_fragment ''http://example.com/'' ''s''
     = ''<html lang=en><head id=h><img src='' @ [dquote] @ ''='' @ [dquote]
       @ ''http://cdn.example.org/a.png'' @ [dquote] @ ''>''"
proof -
  have a: "\<not> contains ''<head>'' (lower tagged_fragment)"
    and b: "\<not> contains ''<html>'' (lower tagged_fragment)"
    by (simp_all add: py_defs)
  have p: "urlparse ''http://example.com/'' []
       = Inr \<lparr>scheme = ''http'', netloc = ''example.com'', path = ''/'', params = [],
              query = [], fragment = []\<rparr>"
    by (simp add: py_defs)
  have c: "rewrite_attrs ''http://example.com/'' tagged_fragment
       = Inr (''<html lang=en><head id=h><img src='' @ [dquote] @ ''='' @ [dquote]
              @ ''http://cdn.example.org/a.png'' @ [dquote] @ ''>'')"
    by (simp add: py_defs)
  have d: "rewrite_css ''http://example.com/''
             (''<html lang=en><head id=h><img src='' @ [dquote] @ ''='' @ [dquote]
              @ ''http://cdn.example.org/a.png'' @ [dquote] @ ''>'')
       = Inr (''<html lang=en><head id=h><img src='' @ [dquote] @ ''='' @ [dquote]
              @ ''http://cdn.example.org/a.png'' @ [dquote] @ ''>'')"
    by (simp add: py_defs)
  from rewrite_html_content_without_head [OF a b, of _ "''http://example.com/''" "''s''"]
    p c d
  have "rewrite_html_content tagged_fragment ''http://example.com/'' ''s''
     = ''<html lang=en><head id=h><img src='' @ [dquote] @ ''='' @ [dquote]
       @ ''http://cdn.example.org/a.png'' @ [dquote] @ ''>''"
    by simp
  with a b show ?thesis
    by simp
qed

text \<open>
  C3. The handler of \<open>rewrite_html_content\<close> returns the variable \<open>html\<close>, which
  the steps that have ended have rebound. On \<open>broken_css_page\<close> the \<open>src\<close>/\<open>href\<close>
  step ends and changes the link, then \<open>urljoin\<close> raises \<open>ValueError\<close> in the
  \<open>url()\<close> step on \<open>http://[\<close>: an internal error has occurred, and the result is
  the text with the link rewritten, not the input.
\<close>

theorem rewrite_html_content_returns_partial_result:
  "rewrite_attrs ''http://example.com/'' broken_css_page
     = Inr (''<a href='' @ [dquote] @ ''='' @ [dquote] @ ''http://a/'' @ [dquote]
            @ ''>url(http://[)'')
   \<and> rewrite_css ''http://example.com/''
       (''<a href='' @ [dquote] @ ''='' @ [dquote] @ ''http://a/'' @ [dquote]
        @ ''>url(http://[)'')
     = Inl (ValueError ''Invalid IPv6 URL'')
   \<and> rewrite_html_content broken_css_page ''http://example.com/'' ''s''
     = ''<a href='' @ [dquote] @ ''='' @ [dquote] @ ''http://a/'' @ [dquote]
       @ ''>url(http://[)''
   \<and> rewrite_html_content broken_css_page ''http://example.com/'' ''s''
     \<noteq> broken_css_page"
  by (simp add: py_defs)

section \<open>Properties of the entry points\<close>

lemma proxy_request_oversize_rejected:
  assumes "headers_get (headers response) ''content-encoding'' [] = []"
    and "int (length (content response)) > MAX_RESPONSE_SIZE"
  shows "proxy_request_response lib finish response
           = Inr (Error_response 413 ''Response too large. Maximum size is 50.0MB'')"
  using assms unfolding proxy_request_response_def
  by (simp add: lower_def)

lemma proxy_request_oversize_after_decompression:
  assumes "lower (headers_get (headers response) ''content-encoding'' []) = enc"
    and "enc \<noteq> []"
    and "decompress_content lib (content response) enc = Inr c"
    and "int (length c) > MAX_RESPONSE_SIZE"
  shows "proxy_request_response lib finish response
           = Inr (Error_response 413 ''Response too large. Maximum size is 50.0MB'')"
  using assms unfolding proxy_request_response_def
  by simp

lemma length_big_body:
  "int (length big_body) = MAX_RESPONSE_SIZE + 1"
  by (simp only: big_body_def length_replicate MAX_RESPONSE_SIZE_def)

text \<open>
  C2 holds for the page handler (the two lemmas above) and fails for the resource
  handler, which has no size check: a body one byte over the limit is forwarded whole.
\<close>

theorem proxy_resource_forwards_oversize_body:
  "int (length big_body) > MAX_RESPONSE_SIZE
   \<and> proxy_resource big_environment Map.empty (Some ''http://example.com/big.bin'') None
       = Resource_response big_body
           [(''Content-Type'', ''application/octet-stream''),
            (''Access-Control-Allow-Origin'', ''*'')]"
proof -
  have v: "validate_url ''http://example.com/big.bin'' = (True, [])"
    by (simp add: py_defs)
  have "proxy_resource big_environment Map.empty (Some ''http://example.com/big.bin'') None
       = Resource_response big_body
           [(''Content-Type'', ''application/octet-stream''),
            (''Access-Control-Allow-Origin'', ''*'')]"
    unfolding proxy_resource_def proxy_resource_body_def big_environment_def
    by (simp add: v headers_get_def lower_def lower_char_def code_def char_of_def)
  with length_big_body show ?thesis
    by simp
qed

text \<open>
  C4, as stated, fails for style sheets: the resource handler returns the bytes of a
  CSS response as they came, while the \<open>url()\<close> rewrite of the page handler would
  change them.
\<close>

theorem proxy_resource_css_counterexample:
  "proxy_resource css_environment Map.empty (Some ''http://example.com/s/main.css'') None
     = Resource_response ''a { background: url(img/a.png) }''
         [(''Content-Type'', ''text/css''), (''Access-Control-Allow-Origin'', ''*'')]
   \<and> rewrite_css ''http://example.com/s/main.css'' ''a { background: url(img/a.png) }''
     = Inr (''a { background: url('' @ [dquote] @ ''http://example.com/s/img/a.png''
            @ [dquote] @ '') }'')"
  by (simp add: py_defs)

text \<open>
  C4, amended. For every resource fetch that ends in a resource response, whatever the
  content type of the upstream response (a style sheet included), the returned bytes
  are the upstream body as \<open>decompress_content\<close> leaves it (the body itself when the
  response has no Content-Encoding): no rewriting is applied.
\<close>

theorem proxy_resource_returns_upstream_bytes:
  assumes "proxy_resource env store (Some u) sess = Resource_response body hs"
  shows "\<exists>response.
           http_get env (unquote env u) BROWSER_HEADERS
             (get_session_cookies store (case sess of None \<Rightarrow> ''anonymous'' | Some s \<Rightarrow> s))
             = Inr response
           \<and> (if lower (headers_get (headers response) ''content-encoding'' []) \<noteq> []
              then decompress_content (codecs_of env) (content response)
                     (lower (headers_get (headers response) ''content-encoding'' []))
                   = Inr body
              else body = content response)"
  using assms unfolding proxy_resource_def proxy_resource_body_def
  by (auto simp: Let_def split: sum.splits if_splits prod.splits)

theorem proxy_resource_returns_upstream_bytes_witness:
  "proxy_resource css_environment Map.empty (Some ''http://example.com/s/main.css'') None
     = Resource_response ''a { background: url(img/a.png) }''
         [(''Content-Type'', ''text/css''), (''Access-Control-Allow-Origin'', ''*'')]
   \<and> (\<exists>response.
         http_get css_environment (unquote css_environment ''http://example.com/s/main.css'')
           BROWSER_HEADERS (get_session_cookies Map.empty ''anonymous'') = Inr response
         \<and> headers_get (headers response) ''content-type'' [] = ''text/css''
         \<and> ''a { background: url(img/a.png) }'' = content response)"
proof -
  have r: "proxy_resource css_environment Map.empty (Some ''http://example.com/s/main.css'')
             None
           = Resource_response ''a { background: url(img/a.png) }''
               [(''Content-Type'', ''text/css''), (''Access-Control-Allow-Origin'', ''*'')]"
    by (simp add: py_defs)
  have e: "lower (headers_get (headers response) ''content-encoding'' []) = []
           \<and> headers_get (headers response) ''content-type'' [] = ''text/css''"
    if "http_get css_environment (unquote css_environment ''http://example.com/s/main.css'')
           BROWSER_HEADERS (get_session_cookies Map.empty ''anonymous'') = Inr response"
    for response
    using that unfolding css_environment_def
    by (auto simp: headers_get_def lower_def lower_char_def code_def char_of_def)
  from proxy_resource_returns_upstream_bytes [OF r] e have
    "\<exists>response.
         http_get css_environment (unquote css_environment ''http://example.com/s/main.css'')
           BROWSER_HEADERS (get_session_cookies Map.empty ''anonymous'') = Inr response
         \<and> headers_get (headers response) ''content-type'' [] = ''text/css''
         \<and> ''a { background: url(img/a.png) }'' = content response"
    by auto
  with r show ?thesis
    by blast
qed

section \<open>Properties of the header sanitizer\<close>

lemma strip_security_headers_filter:
  "strip_security_headers hs = filter (\<lambda>(k, v). lower k \<notin> set blocked_headers) hs"
  by (induction hs rule: strip_security_headers.induct) auto

text \<open>
  C5. For every header mapping, the output of the sanitizer has no key that is,
  ignoring case, \<open>x-frame-options\<close>, \<open>content-security-policy\<close>, its report-only variant,
  \<open>set-cookie\<close>, \<open>content-encoding\<close>, \<open>transfer-encoding\<close> or \<open>content-length\<close>; and
  every input entry whose lowered key is not in the blocked list is in the output,
  key and value unchanged.
\<close>

theorem strip_security_headers_blocked_and_kept:
  "(\<forall>(k, v) \<in> set (strip_security_headers hs).
      lower k \<notin> {''x-frame-options'', ''content-security-policy'',
                   ''content-security-policy-report-only'', ''set-cookie'',
                   ''content-encoding'', ''transfer-encoding'', ''content-length''})
   \<and> (\<forall>(k, v) \<in> set hs.
        lower k \<notin> set blocked_headers \<longrightarrow> (k, v) \<in> set (strip_security_headers hs))"
proof -
  have sub: "{''x-frame-options'', ''content-security-policy'',
              ''content-security-policy-report-only'', ''set-cookie'',
              ''content-encoding'', ''transfer-encoding'', ''content-length''}
             \<subseteq> set blocked_headers"
    by (simp add: blocked_headers_def)
  have "\<forall>(k, v) \<in> set (strip_security_headers hs). lower k \<notin> set blocked_headers"
    by (auto simp: strip_security_headers_filter)
  with sub show ?thesis
    by (fastforce simp: strip_security_headers_filter)
qed

theorem strip_security_headers_blocked_and_kept_witness:
  "lower ''X-Frame-Options'' = ''x-frame-options''
   \<and> (''X-Frame-Options'', ''DENY'') \<notin>
        set (strip_security_headers [(''X-Frame-Options'', ''DENY''), (''Content-Type'', ''text/html'')])
   \<and> lower ''Content-Type'' \<notin> set blocked_headers
   \<and> (''Content-Type'', ''text/html'') \<in>
        set (strip_security_headers [(''X-Frame-Options'', ''DENY''), (''Content-Type'', ''text/html'')])"
proof -
  have low: "lower ''X-Frame-Options'' = ''x-frame-options''"
    by (simp add: py_defs)
  have keep: "lower ''Content-Type'' \<notin> set blocked_headers"
    by (simp add: py_defs)
  have inp: "(''Content-Type'', ''text/html'') \<in>
      set [(''X-Frame-Options'', ''DENY''), (''Content-Type'', ''text/html'')]"
    by simp
  from strip_security_headers_blocked_and_kept
         [of "[(''X-Frame-Options'', ''DENY''), (''Content-Type'', ''text/html'')]"]
  show ?thesis
    using low keep inp by fastforce
qed

section \<open>Properties of the decompression cascade\<close>

lemma decompress_dispatch_cases:
  "decompress_dispatch lib c enc = Inr r \<Longrightarrow>
     r = c \<or> gzip_decompress lib c = Inr r \<or> zlib_decompress lib c = Inr r
     \<or> zlib_decompress_raw lib c = Inr r \<or> brotli_decompress lib c = Inr r"
  unfolding decompress_dispatch_def
  by (auto split: if_splits sum.splits py_exception.splits)

lemma decompress_content_returns:
  "\<exists>r. decompress_content lib c enc = Inr r"
  unfolding decompress_content_def
  by (auto simp: Let_def split: sum.splits)

text \<open>
  C6. For every byte string, every Content-Encoding value and whatever the
  decompression libraries do, \<open>decompress_content\<close> returns (no exception leaves it),
  and what it returns is the input or the output of a library call that succeeded.
  When the transform the label selects fails, the result is the input: gzip when the
  label contains \<open>gzip\<close>; otherwise zlib, and raw deflate after a \<open>zlib.error\<close>, when it
  contains \<open>deflate\<close>; otherwise brotli when it contains \<open>br\<close>.
\<close>

theorem decompress_content_never_raises:
  "(\<exists>r. decompress_content lib c enc = Inr r
        \<and> (r = c \<or> gzip_decompress lib c = Inr r \<or> zlib_decompress lib c = Inr r
             \<or> zlib_decompress_raw lib c = Inr r \<or> brotli_decompress lib c = Inr r))
   \<and> (contains ''gzip'' (lower enc) \<and> gzip_decompress lib c = Inl e
        \<longrightarrow> decompress_content lib c enc = Inr c)
   \<and> (\<not> contains ''gzip'' (lower enc) \<and> contains ''deflate'' (lower enc)
        \<and> zlib_decompress lib c = Inl e
        \<and> (e = Zlib_error \<longrightarrow> zlib_decompress_raw lib c = Inl e')
        \<longrightarrow> decompress_content lib c enc = Inr c)
   \<and> (\<not> contains ''gzip'' (lower enc) \<and> \<not> contains ''deflate'' (lower enc)
        \<and> contains ''br'' (lower enc) \<and> brotli_decompress lib c = Inl e
        \<longrightarrow> decompress_content lib c enc = Inr c)"
proof (intro conjI)
  obtain r where r: "decompress_content lib c enc = Inr r"
    using decompress_content_returns by blast
  have "r = c \<or> gzip_decompress lib c = Inr r \<or> zlib_decompress lib c = Inr r
        \<or> zlib_decompress_raw lib c = Inr r \<or> brotli_decompress lib c = Inr r"
    using r decompress_dispatch_cases [of lib c "lower enc" r]
    unfolding decompress_content_def
    by (auto simp: Let_def split: if_splits sum.splits)
  with r show "\<exists>r. decompress_content lib c enc = Inr r
        \<and> (r = c \<or> gzip_decompress lib c = Inr r \<or> zlib_decompress lib c = Inr r
             \<or> zlib_decompress_raw lib c = Inr r \<or> brotli_decompress lib c = Inr r)"
    by blast
next
  show "contains ''gzip'' (lower enc) \<and> gzip_decompress lib c = Inl e
        \<longrightarrow> decompress_content lib c enc = Inr c"
    unfolding decompress_content_def decompress_dispatch_def
    by (auto simp: Let_def)
next
  show "\<not> contains ''gzip'' (lower enc) \<and> contains ''deflate'' (lower enc)
        \<and> zlib_decompress lib c = Inl e
        \<and> (e = Zlib_error \<longrightarrow> zlib_decompress_raw lib c = Inl e')
        \<longrightarrow> decompress_content lib c enc = Inr c"
    unfolding decompress_content_def decompress_dispatch_def
    by (cases e) (auto simp: Let_def)
next
  show "\<not> contains ''gzip'' (lower enc) \<and> \<not> contains ''deflate'' (lower enc)
        \<and> contains ''br'' (lower enc) \<and> brotli_decompress lib c = Inl e
        \<longrightarrow> decompress_content lib c enc = Inr c"
    unfolding decompress_content_def decompress_dispatch_def
    by (auto simp: Let_def)
qed

theorem decompress_content_never_raises_witness:
  "contains ''gzip'' (lower ''gzip'')
   \<and> gzip_decompress failing_codecs ''plain words'' = Inl Codec_error
   \<and> decompress_content failing_codecs ''plain words'' ''gzip'' = Inr ''plain words''
   \<and> \<not> contains ''gzip'' (lower ''deflate'') \<and> contains ''deflate'' (lower ''deflate'')
   \<and> zlib_decompress failing_codecs ''plain words'' = Inl Zlib_error
   \<and> zlib_decompress_raw failing_codecs ''plain words'' = Inl Zlib_error
   \<and> decompress_content failing_codecs ''plain words'' ''deflate'' = Inr ''plain words''
   \<and> \<not> contains ''gzip'' (lower ''br'') \<and> \<not> contains ''deflate'' (lower ''br'')
   \<and> contains ''br'' (lower ''br'')
   \<and> brotli_decompress failing_codecs ''plain words'' = Inl Codec_error
   \<and> decompress_content failing_codecs ''plain words'' ''br'' = Inr ''plain words''"
proof -
  have g: "contains ''gzip'' (lower ''gzip'')"
    and d: "\<not> contains ''gzip'' (lower ''deflate'') \<and> contains ''deflate'' (lower ''deflate'')"
    and b: "\<not> contains ''gzip'' (lower ''br'') \<and> \<not> contains ''deflate'' (lower ''br'')
            \<and> contains ''br'' (lower ''br'')"
    by (simp_all add: py_defs)
  have f: "gzip_decompress failing_codecs ''plain words'' = Inl Codec_error"
    "zlib_decompress failing_codecs ''plain words'' = Inl Zlib_error"
    "zlib_decompress_raw failing_codecs ''plain words'' = Inl Zlib_error"
    "brotli_decompress failing_codecs ''plain words'' = Inl Codec_error"
    by (simp_all add: py_defs)
  note t1 = decompress_content_never_raises
              [of failing_codecs "''plain words''" "''gzip''" Codec_error Zlib_error]
  note t2 = decompress_content_never_raises
              [of failing_codecs "''plain words''" "''deflate''" Zlib_error Zlib_error]
  note t3 = decompress_content_never_raises
              [of failing_codecs "''plain words''" "''br''" Codec_error Zlib_error]
  from t1 g f have r1: "decompress_content failing_codecs ''plain words'' ''gzip''
      = Inr ''plain words''"
    by blast
  from t2 d f have r2: "decompress_content failing_codecs ''plain words'' ''deflate''
      = Inr ''plain words''"
    by blast
  from t3 b f have r3: "decompress_content failing_codecs ''plain words'' ''br''
      = Inr ''plain words''"
    by blast
  from g d b f r1 r2 r3 show ?thesis
    by blast
qed




end
